theory Spec2Isabelle
  imports Complex_Main
begin

section \<open>Circuit breaker (circuit-breaker.ts)\<close>

text \<open>
  The breaker keeps one \<open>BreakerState\<close> object per key in a \<open>Map\<close>. JavaScript numbers
  that count calls or hold \<open>Date.now()\<close> readings are modelled as \<open>int\<close>; the three
  configuration numbers are \<open>int\<close> as well, so zero and negative settings are inputs of
  the model. Logger calls are left out: the logger is optional and nothing it does
  feeds back into the control flow.
\<close>

datatype CircuitBreakerState = Closed | Open | HalfOpen

record CircuitBreakerConfig =
  failureThreshold :: int
  recoveryTimeoutMs :: int
  halfOpenMaxRequests :: int

record BreakerState =
  state :: CircuitBreakerState
  failureCount :: int
  successCount :: int
  lastFailureTime :: int
  halfOpenRequests :: int

text \<open>
  What \<open>execute\<close> throws: its own typed error, carrying the key and the remaining
  cooldown in milliseconds, or whatever the wrapped function threw, rethrown as it is.
\<close>

datatype 'e exec_error = CircuitBreakerOpenError string int | Thrown 'e

definition DEFAULT_CONFIG :: CircuitBreakerConfig where
  "DEFAULT_CONFIG =
     \<lparr>failureThreshold = 5, recoveryTimeoutMs = 30000, halfOpenMaxRequests = 1\<rparr>"

text \<open>The object \<open>getOrCreate\<close> stores for a key it has not seen.\<close>

definition newBreaker :: BreakerState where
  "newBreaker =
     \<lparr>state = Closed, failureCount = 0, successCount = 0, lastFailureTime = 0,
      halfOpenRequests = 0\<rparr>"

definition getOrCreate :: "(string \<rightharpoonup> BreakerState) \<Rightarrow> string \<Rightarrow> BreakerState" where
  "getOrCreate bs key = (case bs key of Some b \<Rightarrow> b | None \<Rightarrow> newBreaker)"

definition transitionTo :: "BreakerState \<Rightarrow> CircuitBreakerState \<Rightarrow> BreakerState" where
  "transitionTo b newState = (if state b = newState then b else b\<lparr>state := newState\<rparr>)"

definition onSuccess :: "BreakerState \<Rightarrow> BreakerState" where
  "onSuccess b =
     (let b1 = (if state b = HalfOpen
                then (transitionTo b Closed)\<lparr>failureCount := 0, halfOpenRequests := 0\<rparr>
                else b)
      in b1\<lparr>successCount := successCount b1 + 1\<rparr>)"

text \<open>\<open>now\<close> is the reading of \<open>Date.now()\<close> taken inside \<open>onFailure\<close>.\<close>

definition onFailure :: "CircuitBreakerConfig \<Rightarrow> int \<Rightarrow> BreakerState \<Rightarrow> BreakerState" where
  "onFailure cfg now b =
     (let b1 = b\<lparr>failureCount := failureCount b + 1, lastFailureTime := now\<rparr>
      in if state b1 = HalfOpen then (transitionTo b1 Open)\<lparr>halfOpenRequests := 0\<rparr>
         else if state b1 = Closed then
           (if failureCount b1 \<ge> failureThreshold cfg then transitionTo b1 Open else b1)
         else b1)"

text \<open>
  The part of \<open>execute\<close> that runs before the wrapped function: the lazy move from
  open to half-open (\<open>admit\<close>) followed by the half-open probe limit (\<open>probeGate\<close>). The result is the error thrown, if
  any, and the breaker object as the code leaves it (a call rejected at the probe limit
  right after the lazy transition leaves the object half-open). \<open>now\<close> is the reading
  of \<open>Date.now()\<close> in the open branch.
\<close>

definition probeGate ::
  "CircuitBreakerConfig \<Rightarrow> string \<Rightarrow> BreakerState \<Rightarrow> 'e exec_error option \<times> BreakerState"
where
  "probeGate cfg key b =
     (if state b = HalfOpen then
        (if halfOpenRequests b \<ge> halfOpenMaxRequests cfg
         then (Some (CircuitBreakerOpenError key 0), b)
         else (None, b\<lparr>halfOpenRequests := halfOpenRequests b + 1\<rparr>))
      else (None, b))"

definition admit ::
  "CircuitBreakerConfig \<Rightarrow> string \<Rightarrow> int \<Rightarrow> BreakerState \<Rightarrow> 'e exec_error option \<times> BreakerState"
where
  "admit cfg key now b =
     (if state b = Open then
        (let elapsed = now - lastFailureTime b in
         if elapsed \<ge> recoveryTimeoutMs cfg
         then probeGate cfg key (transitionTo b HalfOpen)
         else (Some (CircuitBreakerOpenError key (recoveryTimeoutMs cfg - elapsed)), b))
      else probeGate cfg key b)"

text \<open>
  One call of \<open>execute(key, fn)\<close> with nothing interleaved while \<open>fn\<close> is awaited.
  The wrapped function acts on an outside world \<open>'w\<close> and either returns (\<open>Inr\<close>) or
  throws (\<open>Inl\<close>); a call that is rejected hands the world back untouched. \<open>t0\<close> and
  \<open>t1\<close> are the clock readings on entry and in \<open>onFailure\<close>.
\<close>

definition execute ::
  "CircuitBreakerConfig \<Rightarrow> string \<Rightarrow> ('w \<Rightarrow> ('e + 'a) \<times> 'w) \<Rightarrow> int \<Rightarrow> int \<Rightarrow>
   (string \<rightharpoonup> BreakerState) \<Rightarrow> 'w \<Rightarrow> ('e exec_error + 'a) \<times> (string \<rightharpoonup> BreakerState) \<times> 'w"
where
  "execute cfg key fn t0 t1 bs w =
     (case admit cfg key t0 (getOrCreate bs key) of
        (Some err, b1) \<Rightarrow> (Inl err, bs(key \<mapsto> b1), w)
      | (None, b1) \<Rightarrow>
          (case fn w of
             (Inr result, w') \<Rightarrow> (Inr result, bs(key \<mapsto> onSuccess b1), w')
           | (Inl error, w') \<Rightarrow> (Inl (Thrown error), bs(key \<mapsto> onFailure cfg t1 b1), w')))"

definition getState ::
  "CircuitBreakerConfig \<Rightarrow> int \<Rightarrow> (string \<rightharpoonup> BreakerState) \<Rightarrow> string \<Rightarrow> CircuitBreakerState"
where
  "getState cfg now bs key =
     (case bs key of
        None \<Rightarrow> Closed
      | Some b \<Rightarrow>
          if state b = Open \<and> now - lastFailureTime b \<ge> recoveryTimeoutMs cfg then HalfOpen
          else state b)"

definition reset :: "BreakerState \<Rightarrow> BreakerState" where
  "reset b = (transitionTo b Closed)\<lparr>failureCount := 0, successCount := 0, halfOpenRequests := 0\<rparr>"

text \<open>
  Calls on one key overlap only at the single \<open>await fn()\<close>, so the object is changed
  by whole blocks: the admission block of some call, the completion block of a call
  admitted earlier, or a manual reset. Every sequence of such blocks is allowed here,
  which covers every interleaving the event loop can produce.
\<close>

datatype event = Begin int | Succeed | Fail int | Reset

fun step :: "CircuitBreakerConfig \<Rightarrow> BreakerState \<Rightarrow> event \<Rightarrow> BreakerState" where
  "step cfg b (Begin now) = snd (admit cfg [] now b :: unit exec_error option \<times> BreakerState)"
| "step cfg b Succeed = onSuccess b"
| "step cfg b (Fail now) = onFailure cfg now b"
| "step cfg b Reset = reset b"

definition run :: "CircuitBreakerConfig \<Rightarrow> event list \<Rightarrow> BreakerState" where
  "run cfg evs = foldl (step cfg) newBreaker evs"

text \<open>
  A burst of calls that all start before any of them completes: how many of them the
  admission block lets through.
\<close>

fun admitted :: "CircuitBreakerConfig \<Rightarrow> BreakerState \<Rightarrow> int list \<Rightarrow> nat" where
  "admitted cfg b [] = 0"
| "admitted cfg b (t # ts) =
     (case (admit cfg [] t b :: unit exec_error option \<times> BreakerState) of
        (None, b1) \<Rightarrow> Suc (admitted cfg b1 ts)
      | (Some err, b1) \<Rightarrow> admitted cfg b1 ts)"

text \<open>
  The wrapped functions of the examples: one that returns and one that throws, each
  counting its invocations in the world.
\<close>

definition fn_ok :: "nat \<Rightarrow> (string + string) \<times> nat" where
  "fn_ok w = (Inr ''ok'', Suc w)"

definition fn_fail :: "nat \<Rightarrow> (string + string) \<times> nat" where
  "fn_fail w = (Inl ''boom'', Suc w)"

text \<open>
  Calls made one after the other on one key, each with its own function and clock
  readings; the result lists the outcomes in order.
\<close>

fun execute_all ::
  "CircuitBreakerConfig \<Rightarrow> string \<Rightarrow> (('w \<Rightarrow> ('e + 'a) \<times> 'w) \<times> int \<times> int) list \<Rightarrow>
   (string \<rightharpoonup> BreakerState) \<Rightarrow> 'w \<Rightarrow> ('e exec_error + 'a) list \<times> (string \<rightharpoonup> BreakerState) \<times> 'w"
where
  "execute_all cfg key [] bs w = ([], bs, w)"
| "execute_all cfg key ((fn, t0, t1) # cs) bs w =
     (case execute cfg key fn t0 t1 bs w of
        (r, bs1, w1) \<Rightarrow>
          (case execute_all cfg key cs bs1 w1 of (rs, bs2, w2) \<Rightarrow> (r # rs, bs2, w2)))"

text \<open>
  Example inputs: five failed completions at time 100, a configuration that admits two
  probes, and one that admits none.
\<close>

definition five_failures :: "event list" where
  "five_failures = [Fail 100, Fail 100, Fail 100, Fail 100, Fail 100]"

definition two_probe_config :: CircuitBreakerConfig where
  "two_probe_config = \<lparr>failureThreshold = 5, recoveryTimeoutMs = 30000, halfOpenMaxRequests = 2\<rparr>"

definition no_probe_config :: CircuitBreakerConfig where
  "no_probe_config = \<lparr>failureThreshold = 5, recoveryTimeoutMs = 30000, halfOpenMaxRequests = 0\<rparr>"

section \<open>Transaction mapper (transaction-mapper.ts)\<close>

subsection \<open>Strings and numbers of the host language\<close>

text \<open>
  Strings are lists of characters and the messages and scheme names of the model are
  ASCII text. \<open>toLowerCase\<close> lowers the letters A to Z and keeps every other character;
  on ASCII text this is what JavaScript does. \<open>includes_str\<close> is the substring test of
  \<open>String.prototype.includes\<close>.
\<close>

definition toLowerChar :: "char \<Rightarrow> char" where
  "toLowerChar c =
     (case map_of (zip ''ABCDEFGHIJKLMNOPQRSTUVWXYZ'' ''abcdefghijklmnopqrstuvwxyz'') c of
        Some l \<Rightarrow> l
      | None \<Rightarrow> c)"

definition toLowerCase :: "string \<Rightarrow> string" where
  "toLowerCase s = map toLowerChar s"

fun startsWith :: "string \<Rightarrow> string \<Rightarrow> bool" where
  "startsWith s [] = True"
| "startsWith [] (c # cs) = False"
| "startsWith (x # xs) (c # cs) = (x = c \<and> startsWith xs cs)"

fun includes_str :: "string \<Rightarrow> string \<Rightarrow> bool" where
  "includes_str [] sub = (sub = [])"
| "includes_str (x # xs) sub = (startsWith (x # xs) sub \<or> includes_str xs sub)"

text \<open>
  A JavaScript number as far as \<open>extractAmount\<close> can tell values apart: not-a-number,
  the two infinities, or a finite value (the two zeros are one value here). The
  conversion \<open>Number(raw)\<close> and the rounding of an exact quotient to the nearest double
  belong to the language, not to the repository, and are parameters of the model
  (\<open>Number\<close> and \<open>roundDouble\<close> of the environment below). Dividing a finite double by
  \<open>10^6\<close> or \<open>10^18\<close>, both exact doubles, cannot overflow, so the quotient of a
  finite value is finite.
\<close>

datatype number = NaN | PosInfinity | NegInfinity | Finite real

definition divPow10 :: "(real \<Rightarrow> real) \<Rightarrow> number \<Rightarrow> nat \<Rightarrow> number" where
  "divPow10 rd x decimals =
     (case x of
        NaN \<Rightarrow> NaN
      | PosInfinity \<Rightarrow> PosInfinity
      | NegInfinity \<Rightarrow> NegInfinity
      | Finite a \<Rightarrow> Finite (rd (a / 10 ^ decimals)))"

text \<open>A value of unknown type read from the payload: absent, a string, or anything else.\<close>

datatype jsvalue = JUndefined | JString string | JOther

text \<open>A thrown value: an \<open>Error\<close> with its message, or some other value.\<close>

datatype thrown = JsError string | NonError string

text \<open>
  What one call reads from its surroundings: the two language primitives above, the
  id \<open>createTransaction\<close> assigns, and the successive readings of
  \<open>new Date().toISOString()\<close> and \<open>Date.now()\<close>.
\<close>

record env =
  Number :: "string \<Rightarrow> number"
  roundDouble :: "real \<Rightarrow> real"
  newId :: string
  isoNow :: "nat \<Rightarrow> string"
  dateNow :: "nat \<Rightarrow> int"

subsection \<open>Payload, requirements, configuration, transaction\<close>

text \<open>
  Fields the code guards with \<open>??\<close>, \<open>?.\<close> or a truthiness test are optional here,
  whatever the TypeScript interface says. The two records share field names in the
  source (\<open>scheme\<close>, \<open>network\<close>, \<open>resource\<close>); here they carry the prefix \<open>p_\<close> or
  \<open>r_\<close>.
\<close>

record X402PaymentPayload =
  p_x402Version :: int
  p_scheme :: "string option"
  p_network :: "string option"
  p_payload :: string
  p_resource :: "string option"
  p_payer :: jsvalue
  p_from :: jsvalue

record X402PaymentRequirements =
  r_scheme :: "string option"
  r_network :: "string option"
  r_maxAmountRequired :: "string option"
  r_resource :: "string option"
  r_description :: "string option"
  r_payTo :: "string option"

text \<open>
  The adapter's merged configuration: \<open>abortOnPolicyDeny\<close> and \<open>sessionId\<close> always have
  a value after the constructor, and \<open>circuitBreaker\<close> is the breaker's configuration
  after its defaults were filled in.
\<close>

record X402PaySentryConfig =
  defaultAgentId :: "string option"
  defaultCurrency :: "string option"
  circuitBreaker :: CircuitBreakerConfig
  resolveAgentId :: "(string \<Rightarrow> thrown + string) option"
  abortOnPolicyDeny :: bool
  failOpen :: "bool option"
  sessionId :: string

datatype TransactionStatus = Pending | Completed | Rejected | Failed

record TransactionMetadata =
  m_x402Version :: int
  m_scheme :: "string option"
  m_network :: "string option"
  m_resource :: "string option"
  m_maxAmountRequired :: "string option"

record AgentTransaction =
  tx_id :: string
  agentId :: string
  recipient :: string
  amount :: number
  currency :: string
  purpose :: string
  protocol :: string
  metadata :: TransactionMetadata
  status :: TransactionStatus
  createdAt :: string
  updatedAt :: string
  protocolTxId :: "string option"

text \<open>
  Modelled from the spec: \<open>createTransaction\<close> of \<open>@paysentry/core\<close> is not among the
  sources. The spec's Transaction has an id assigned at creation, starts \<open>pending\<close>, and
  carries creation and update timestamps; the remaining fields are the caller's.
\<close>

definition createTransaction ::
  "env \<Rightarrow> string \<Rightarrow> string \<Rightarrow> number \<Rightarrow> string \<Rightarrow> string \<Rightarrow> string \<Rightarrow> TransactionMetadata \<Rightarrow>
   AgentTransaction"
where
  "createTransaction e agent rcpt amt cur purp proto meta =
     \<lparr>tx_id = newId e, agentId = agent, recipient = rcpt, amount = amt, currency = cur,
      purpose = purp, protocol = proto, metadata = meta, status = Pending,
      createdAt = isoNow e 0, updatedAt = isoNow e 0, protocolTxId = None\<rparr>"

subsection \<open>The mapping functions\<close>

definition extractPayerAddress :: "X402PaymentPayload \<Rightarrow> string option" where
  "extractPayerAddress pl =
     (case p_payer pl of
        JString s \<Rightarrow>
          if s \<noteq> [] then Some s
          else (case p_from pl of
                  JString f \<Rightarrow> if f \<noteq> [] then Some f else None
                | _ \<Rightarrow> None)
      | _ \<Rightarrow>
          (case p_from pl of
             JString f \<Rightarrow> if f \<noteq> [] then Some f else None
           | _ \<Rightarrow> None))"

text \<open>
  The resolver is awaited inside a \<open>try\<close>; when it throws or rejects (\<open>Inl\<close>) the
  function goes on to the payer address.
\<close>

definition extractAgent :: "X402PaymentPayload \<Rightarrow> X402PaySentryConfig \<Rightarrow> string" where
  "extractAgent pl config =
     (case extractPayerAddress pl of
        Some payerAddress \<Rightarrow>
          (case resolveAgentId config of
             Some resolver \<Rightarrow>
               (case resolver payerAddress of
                  Inr agent \<Rightarrow> agent
                | Inl err \<Rightarrow> payerAddress)
           | None \<Rightarrow> payerAddress)
      | None \<Rightarrow>
          (case defaultAgentId config of
             Some d \<Rightarrow> d
           | None \<Rightarrow> ''unknown-agent''))"

definition inferDecimals :: "string option \<Rightarrow> nat" where
  "inferDecimals scheme =
     (let normalized = (case scheme of Some s \<Rightarrow> toLowerCase s | None \<Rightarrow> [])
      in if includes_str normalized ''eth'' \<or> includes_str normalized ''ether'' then 18 else 6)"

definition inferCurrency :: "string option \<Rightarrow> string option" where
  "inferCurrency scheme =
     (let normalized = (case scheme of Some s \<Rightarrow> toLowerCase s | None \<Rightarrow> [])
      in if includes_str normalized ''usdc'' then Some ''USDC''
         else if includes_str normalized ''usdt'' then Some ''USDT''
         else if includes_str normalized ''eth'' \<or> includes_str normalized ''ether'' then Some ''ETH''
         else if includes_str normalized ''dai'' then Some ''DAI''
         else None)"

definition extractAmount :: "env \<Rightarrow> X402PaymentRequirements \<Rightarrow> number" where
  "extractAmount e req =
     (case r_maxAmountRequired req of
        None \<Rightarrow> Finite 0
      | Some raw \<Rightarrow>
          if raw = [] then Finite 0
          else
            (let parsed = Number e raw in
             if parsed = NaN then Finite 0
             else divPow10 (roundDouble e) parsed (inferDecimals (r_scheme req))))"

definition extractRecipient :: "X402PaymentRequirements \<Rightarrow> string" where
  "extractRecipient req = (case r_payTo req of Some p \<Rightarrow> p | None \<Rightarrow> ''unknown-recipient'')"

definition mapToTransaction ::
  "env \<Rightarrow> X402PaymentPayload \<Rightarrow> X402PaymentRequirements \<Rightarrow> X402PaySentryConfig \<Rightarrow> AgentTransaction"
where
  "mapToTransaction e pl req config =
     (let agent = extractAgent pl config;
          amt = extractAmount e req;
          rcpt = extractRecipient req;
          cur = (case defaultCurrency config of
                   Some c \<Rightarrow> c
                 | None \<Rightarrow> (case inferCurrency (r_scheme req) of Some c \<Rightarrow> c | None \<Rightarrow> ''USDC''))
      in createTransaction e agent rcpt amt cur
           (case r_description req of Some d \<Rightarrow> d | None \<Rightarrow> ''x402 payment to '' @ rcpt)
           ''x402''
           \<lparr>m_x402Version = p_x402Version pl,
            m_scheme = (case p_scheme pl of Some s \<Rightarrow> Some s | None \<Rightarrow> r_scheme req),
            m_network = (case p_network pl of Some n \<Rightarrow> Some n | None \<Rightarrow> r_network req),
            m_resource = (case p_resource pl of Some r \<Rightarrow> Some r | None \<Rightarrow> r_resource req),
            m_maxAmountRequired = r_maxAmountRequired req\<rparr>)"

definition transactionKey :: "X402PaymentPayload \<Rightarrow> X402PaymentRequirements \<Rightarrow> string" where
  "transactionKey pl req =
     ''x402:'' @ (case extractPayerAddress pl of Some p \<Rightarrow> p | None \<Rightarrow> ''unknown'') @ '':'' @
     (case r_payTo req of Some p \<Rightarrow> p | None \<Rightarrow> ''unknown'') @ '':'' @
     (case r_maxAmountRequired req of Some a \<Rightarrow> a | None \<Rightarrow> ''0'')"

text \<open>
  The resolution order in the words of the specification, written without the code's
  functions: a list of sources, tried in order, each of which may or may not yield an
  agent id; the first that yields one decides. The payer identifier is the first of the
  payload's \<open>payer\<close> and \<open>from\<close> fields that is a non-empty string. The custom
  resolver is declared as a function of the payer address
  (\<open>resolveAgentId?: (payerAddress: string) => ...\<close>): it yields a value when it is
  configured, there is a payer identifier to apply it to, and it returns. The sentinel
  always yields.
\<close>

fun firstYield :: "'a option list \<Rightarrow> 'a option" where
  "firstYield [] = None"
| "firstYield (None # xs) = firstYield xs"
| "firstYield (Some v # xs) = Some v"

definition nonEmptyString :: "jsvalue \<Rightarrow> string option" where
  "nonEmptyString v = (case v of JString s \<Rightarrow> (if s = [] then None else Some s) | _ \<Rightarrow> None)"

definition payerIdentifier :: "X402PaymentPayload \<Rightarrow> string option" where
  "payerIdentifier pl = firstYield [nonEmptyString (p_payer pl), nonEmptyString (p_from pl)]"

definition resolverSource :: "X402PaymentPayload \<Rightarrow> X402PaySentryConfig \<Rightarrow> string option" where
  "resolverSource pl cfg =
     (case resolveAgentId cfg of
        None \<Rightarrow> None
      | Some resolver \<Rightarrow>
          (case payerIdentifier pl of
             None \<Rightarrow> None
           | Some address \<Rightarrow>
               (case resolver address of Inr agent \<Rightarrow> Some agent | Inl err \<Rightarrow> None)))"

definition agentResolutionOrder :: "X402PaymentPayload \<Rightarrow> X402PaySentryConfig \<Rightarrow> string option" where
  "agentResolutionOrder pl cfg =
     firstYield [resolverSource pl cfg, payerIdentifier pl, defaultAgentId cfg,
                 Some ''unknown-agent'']"

section \<open>Adapter (adapter.ts)\<close>

subsection \<open>Engines and collaborators\<close>

text \<open>
  The policy engine, the spend tracker, the alert engine and the provenance recorder
  live in other packages. The adapter only calls them, so the model keeps, for each, the
  list of calls made so far with their arguments; the alert engine and the provenance
  recorder are optional (\<open>engines.spendAlerts?\<close>, \<open>engines.provenance?\<close>) and are
  \<open>None\<close> when the adapter was built without them. \<open>policyEngine.evaluate\<close> is a
  parameter of every operation: it returns an evaluation or throws. The other engine
  calls and the logger are taken not to throw.
\<close>

datatype PolicyAction = Allow | Deny | RequireApproval | Flag

record PolicyEvaluation =
  action :: PolicyAction
  allowed :: bool
  reason :: string
  details :: "string option"

record X402VerifyResponse =
  isValid :: bool
  invalidReason :: "string option"
  v_payer :: "string option"

record X402SettleResponse =
  success :: bool
  txHash :: "string option"
  s_network :: "string option"

text \<open>The facilitator client being wrapped; its calls act on the outside world \<open>'w\<close>.\<close>

record 'w X402FacilitatorClient =
  verify :: "X402PaymentPayload \<Rightarrow> X402PaymentRequirements \<Rightarrow> 'w \<Rightarrow> (thrown + X402VerifyResponse) \<times> 'w"
  settle :: "X402PaymentPayload \<Rightarrow> X402PaymentRequirements \<Rightarrow> 'w \<Rightarrow> (thrown + X402SettleResponse) \<times> 'w"

datatype outcome = OutcomePass | OutcomeFail

datatype meta = MStr string | MOpt "string option" | MBool bool | MAct PolicyAction

datatype provenance_call =
    RecordIntent AgentTransaction "(string \<times> meta) list"
  | RecordPolicyCheck string outcome "(string \<times> meta) list"
  | RecordExecution string outcome "(string \<times> meta) list"
  | RecordSettlement string outcome "(string \<times> meta) list"

record X402TransactionContext =
  transaction :: AgentTransaction
  policyResult :: "PolicyEvaluation option"
  verifyData :: "X402VerifyResponse option"
  settleData :: "X402SettleResponse option"
  ts_created :: string
  ts_verified :: "string option"
  ts_settled :: "string option"

record adapter =
  config :: X402PaySentryConfig
  contexts :: "string \<rightharpoonup> X402TransactionContext"
  breakers :: "string \<rightharpoonup> BreakerState"
  policyRecorded :: "AgentTransaction list"
  tracked :: "AgentTransaction list"
  alerted :: "AgentTransaction list option"
  provenance :: "provenance_call list option"

text \<open>What a wrapped call throws: the policy engine's error, or what \<open>execute\<close> threw.\<close>

datatype wrapper_error = PolicyEngineThrew thrown | ExecuteThrew "thrown exec_error"

text \<open>What a \<open>before\<close> hook returns when it does not return \<open>void\<close>.\<close>

record hook_result =
  abort :: bool
  abortReason :: string

text \<open>The configuration the constructor builds when the caller passes none.\<close>

definition defaultConfig :: "string \<Rightarrow> X402PaySentryConfig" where
  "defaultConfig sid =
     \<lparr>defaultAgentId = None, defaultCurrency = Some ''USDC'', circuitBreaker = DEFAULT_CONFIG,
      resolveAgentId = None, abortOnPolicyDeny = True, failOpen = None, sessionId = sid\<rparr>"

text \<open>
  A new adapter; \<open>withAlerts\<close> and \<open>withProvenance\<close> say whether the two optional engines
  were passed.
\<close>

definition newAdapter :: "X402PaySentryConfig \<Rightarrow> bool \<Rightarrow> bool \<Rightarrow> adapter" where
  "newAdapter cfg withAlerts withProvenance =
     \<lparr>config = cfg, contexts = Map.empty, breakers = Map.empty, policyRecorded = [],
      tracked = [], alerted = (if withAlerts then Some [] else None),
      provenance = (if withProvenance then Some [] else None)\<rparr>"

text \<open>\<open>this.engines.provenance?.record...(...)\<close>: one more call, if there is a recorder.\<close>

definition recordProvenance :: "provenance_call \<Rightarrow> adapter \<Rightarrow> adapter" where
  "recordProvenance c a = a\<lparr>provenance := map_option (\<lambda>cs. cs @ [c]) (provenance a)\<rparr>"

definition evaluateAlerts :: "AgentTransaction \<Rightarrow> adapter \<Rightarrow> adapter" where
  "evaluateAlerts tx a = a\<lparr>alerted := map_option (\<lambda>ts. ts @ [tx]) (alerted a)\<rparr>"

definition freshContext :: "AgentTransaction \<Rightarrow> X402TransactionContext" where
  "freshContext tx =
     \<lparr>transaction = tx, policyResult = None, verifyData = None, settleData = None,
      ts_created = createdAt tx, ts_verified = None, ts_settled = None\<rparr>"

subsection \<open>classifyRetryability\<close>

definition classifyRetryability :: "thrown \<Rightarrow> bool" where
  "classifyRetryability error =
     (case error of
        NonError v \<Rightarrow> False
      | JsError message \<Rightarrow>
          (let msg = toLowerCase message in
           if includes_str msg ''timeout'' \<or> includes_str msg ''econnreset'' \<or>
              includes_str msg ''econnrefused'' then True
           else if includes_str msg ''network'' \<or> includes_str msg ''socket'' \<or>
              includes_str msg ''dns'' then True
           else if includes_str msg ''503'' \<or> includes_str msg ''502'' \<or>
              includes_str msg ''429'' then True
           else if includes_str msg ''401'' \<or> includes_str msg ''403'' \<or>
              includes_str msg ''invalid'' then False
           else if includes_str msg ''insufficient'' \<or> includes_str msg ''denied'' then False
           else False))"

subsection \<open>The wrapped facilitator client\<close>

definition wrapped_verify ::
  "env \<Rightarrow> (AgentTransaction \<Rightarrow> thrown + PolicyEvaluation) \<Rightarrow> 'w X402FacilitatorClient \<Rightarrow> string \<Rightarrow>
   X402PaymentPayload \<Rightarrow> X402PaymentRequirements \<Rightarrow> adapter \<Rightarrow> 'w \<Rightarrow>
   (wrapper_error + X402VerifyResponse) \<times> adapter \<times> 'w"
where
  "wrapped_verify e evaluate client facilitatorKey pl req a w =
     (let tx = mapToTransaction e pl req (config a);
          txKey = transactionKey pl req
      in case evaluate tx of
           Inl err \<Rightarrow> (Inl (PolicyEngineThrew err), a, w)
         | Inr pr \<Rightarrow>
             if \<not> allowed pr \<and> abortOnPolicyDeny (config a) then
               (Inr \<lparr>isValid = False,
                     invalidReason = Some (''PaySentry policy denied: '' @ reason pr),
                     v_payer = None\<rparr>,
                recordProvenance
                  (RecordPolicyCheck (tx_id tx) OutcomeFail
                     [(''action'', MAct (action pr)), (''reason'', MStr (reason pr))]) a,
                w)
             else
               (let a1 = recordProvenance
                           (RecordPolicyCheck (tx_id tx)
                              (if allowed pr then OutcomePass else OutcomeFail)
                              [(''action'', MAct (action pr)), (''reason'', MStr (reason pr))]) a
                in case execute (circuitBreaker (config a)) facilitatorKey (verify client pl req)
                          (dateNow e 0) (dateNow e 1) (breakers a1) w of
                     (Inl err, bs, w') \<Rightarrow> (Inl (ExecuteThrew err), a1\<lparr>breakers := bs\<rparr>, w')
                   | (Inr vr, bs, w') \<Rightarrow>
                       (let a2 = recordProvenance
                                   (RecordExecution (tx_id tx)
                                      (if isValid vr then OutcomePass else OutcomeFail)
                                      [(''stage'', MStr ''verify''), (''isValid'', MBool (isValid vr)),
                                       (''invalidReason'', MOpt (invalidReason vr)),
                                       (''payer'', MOpt (v_payer vr))])
                                   (a1\<lparr>breakers := bs\<rparr>);
                            ctx = \<lparr>transaction = tx, policyResult = Some pr, verifyData = Some vr,
                                   settleData = None, ts_created = createdAt tx,
                                   ts_verified = Some (isoNow e 1), ts_settled = None\<rparr>
                        in (Inr vr, a2\<lparr>contexts := (contexts a2)(txKey \<mapsto> ctx)\<rparr>, w'))))"

text \<open>
  \<open>settle\<close> mutates the transaction object it took from the context (or built), so the
  context written back at the end holds the updated transaction.
\<close>

definition wrapped_settle ::
  "env \<Rightarrow> (AgentTransaction \<Rightarrow> thrown + PolicyEvaluation) \<Rightarrow> 'w X402FacilitatorClient \<Rightarrow> string \<Rightarrow>
   X402PaymentPayload \<Rightarrow> X402PaymentRequirements \<Rightarrow> adapter \<Rightarrow> 'w \<Rightarrow>
   (wrapper_error + X402SettleResponse) \<times> adapter \<times> 'w"
where
  "wrapped_settle e evaluate client facilitatorKey pl req a w =
     (let txKey = transactionKey pl req;
          ctx = (case contexts a txKey of
                   Some c \<Rightarrow> c
                 | None \<Rightarrow> freshContext (mapToTransaction e pl req (config a)));
          tx = transaction ctx
      in case evaluate tx of
           Inl err \<Rightarrow> (Inl (PolicyEngineThrew err), a, w)
         | Inr pr \<Rightarrow>
             if \<not> allowed pr \<and> abortOnPolicyDeny (config a) then
               (Inr \<lparr>success = False, txHash = None, s_network = None\<rparr>,
                recordProvenance
                  (RecordSettlement (tx_id tx) OutcomeFail
                     [(''reason'', MStr (''Policy denied at settlement: '' @ reason pr))]) a,
                w)
             else
               (case execute (circuitBreaker (config a)) facilitatorKey (settle client pl req)
                       (dateNow e 0) (dateNow e 1) (breakers a) w of
                  (Inl err, bs, w') \<Rightarrow> (Inl (ExecuteThrew err), a\<lparr>breakers := bs\<rparr>, w')
                | (Inr sr, bs, w') \<Rightarrow>
                    (let a1 = a\<lparr>breakers := bs\<rparr>;
                         tx1 = (if success sr
                                then tx\<lparr>status := Completed, updatedAt := isoNow e 1,
                                        protocolTxId := txHash sr\<rparr>
                                else tx\<lparr>status := Failed, updatedAt := isoNow e 1\<rparr>);
                         a2 = (if success sr
                               then evaluateAlerts tx1
                                      (recordProvenance
                                         (RecordSettlement (tx_id tx1) OutcomePass
                                            [(''txHash'', MOpt (txHash sr)),
                                             (''network'', MOpt (s_network sr))])
                                         (a1\<lparr>tracked := tracked a1 @ [tx1],
                                             policyRecorded := policyRecorded a1 @ [tx1]\<rparr>))
                               else recordProvenance
                                      (RecordSettlement (tx_id tx1) OutcomeFail
                                         [(''success'', MBool (success sr)),
                                          (''txHash'', MOpt (txHash sr)),
                                          (''network'', MOpt (s_network sr))])
                                      (a1\<lparr>tracked := tracked a1 @ [tx1]\<rparr>));
                         ctx1 = ctx\<lparr>transaction := tx1, settleData := Some sr,
                                    ts_settled := Some (isoNow e 2)\<rparr>
                     in (Inr sr, a2\<lparr>contexts := (contexts a2)(txKey \<mapsto> ctx1)\<rparr>, w'))))"

subsection \<open>The lifecycle hooks\<close>

text \<open>
  Each hook body sits in a \<open>try\<close> whose \<open>catch\<close> only logs. In \<open>handleBeforeVerify\<close>
  the intent entry is recorded before the policy engine is called, so it stays when the
  engine throws; the hook then returns \<open>void\<close>.
\<close>

definition handleBeforeVerify ::
  "env \<Rightarrow> (AgentTransaction \<Rightarrow> thrown + PolicyEvaluation) \<Rightarrow> X402PaymentPayload \<Rightarrow>
   X402PaymentRequirements \<Rightarrow> adapter \<Rightarrow> hook_result option \<times> adapter"
where
  "handleBeforeVerify e evaluate pl req a =
     (let tx = mapToTransaction e pl req (config a);
          txKey = transactionKey pl req;
          a1 = recordProvenance
                 (RecordIntent tx [(''source'', MStr ''x402-lifecycle''),
                                   (''resource'', MOpt (p_resource pl))]) a
      in case evaluate tx of
           Inl err \<Rightarrow> (None, a1)
         | Inr pr \<Rightarrow>
             (let a2 = recordProvenance
                         (RecordPolicyCheck (tx_id tx)
                            (if allowed pr then OutcomePass else OutcomeFail)
                            [(''action'', MAct (action pr)), (''reason'', MStr (reason pr)),
                             (''details'', MOpt (details pr))]) a1;
                  ctx = (freshContext tx)\<lparr>policyResult := Some pr\<rparr>;
                  a3 = a2\<lparr>contexts := (contexts a2)(txKey \<mapsto> ctx)\<rparr>
              in if \<not> allowed pr \<and> abortOnPolicyDeny (config a)
                 then (Some \<lparr>abort = True,
                             abortReason = ''PaySentry policy denied: '' @ reason pr\<rparr>, a3)
                 else (None, a3)))"

definition handleBeforeSettle ::
  "(AgentTransaction \<Rightarrow> thrown + PolicyEvaluation) \<Rightarrow> X402PaymentPayload \<Rightarrow>
   X402PaymentRequirements \<Rightarrow> adapter \<Rightarrow> hook_result option \<times> adapter"
where
  "handleBeforeSettle evaluate pl req a =
     (let txKey = transactionKey pl req in
      case contexts a txKey of
        None \<Rightarrow> (None, a)
      | Some ctx \<Rightarrow>
          (case evaluate (transaction ctx) of
             Inl err \<Rightarrow> (None, a)
           | Inr pr \<Rightarrow>
               if \<not> allowed pr \<and> abortOnPolicyDeny (config a) then
                 (Some \<lparr>abort = True,
                        abortReason = ''PaySentry policy denied at settlement: '' @ reason pr\<rparr>,
                  recordProvenance
                    (RecordSettlement (tx_id (transaction ctx)) OutcomeFail
                       [(''reason'',
                         MStr (''Policy re-check denied at settlement: '' @ reason pr))]) a)
               else (None, a)))"


text \<open>
  \<open>handleSettleFailure\<close> has no access to the facilitator client: whatever it does, it
  cannot call \<open>settle\<close> again.
\<close>

definition handleSettleFailure ::
  "env \<Rightarrow> X402PaymentPayload \<Rightarrow> X402PaymentRequirements \<Rightarrow> thrown \<Rightarrow> adapter \<Rightarrow> adapter"
where
  "handleSettleFailure e pl req error a =
     (let txKey = transactionKey pl req;
          errorMessage = (case error of JsError m \<Rightarrow> m | NonError v \<Rightarrow> v);
          retryable = classifyRetryability error
      in case contexts a txKey of
           None \<Rightarrow> a
         | Some ctx \<Rightarrow>
             (let tx1 = (transaction ctx)\<lparr>status := Failed, updatedAt := isoNow e 0\<rparr>;
                  a1 = a\<lparr>contexts := (contexts a)(txKey \<mapsto> ctx\<lparr>transaction := tx1\<rparr>),
                         tracked := tracked a @ [tx1]\<rparr>
              in recordProvenance
                   (RecordSettlement (tx_id tx1) OutcomeFail
                      [(''error'', MStr errorMessage), (''retryable'', MBool retryable)]) a1))"

text \<open>Whether the recorder holds a call of the given stage and outcome for a transaction.\<close>

definition policyCheckRecorded :: "string \<Rightarrow> outcome \<Rightarrow> adapter \<Rightarrow> bool" where
  "policyCheckRecorded tid oc a =
     (case provenance a of
        None \<Rightarrow> False
      | Some cs \<Rightarrow>
          list_ex (\<lambda>c. case c of RecordPolicyCheck t ob m \<Rightarrow> t = tid \<and> ob = oc | _ \<Rightarrow> False) cs)"

definition settlementRecorded :: "string \<Rightarrow> outcome \<Rightarrow> adapter \<Rightarrow> bool" where
  "settlementRecorded tid oc a =
     (case provenance a of
        None \<Rightarrow> False
      | Some cs \<Rightarrow>
          list_ex (\<lambda>c. case c of RecordSettlement t ob m \<Rightarrow> t = tid \<and> ob = oc | _ \<Rightarrow> False) cs)"

subsection \<open>Example inputs\<close>

definition example_env :: env where
  "example_env =
     \<lparr>Number = (\<lambda>s. if s = ''45000000'' then Finite 45000000 else NaN),
      roundDouble = (\<lambda>r. r), newId = ''tx_1'',
      isoNow = (\<lambda>k. ''2026-01-01T00:00:00.000Z''), dateNow = (\<lambda>k. 1000)\<rparr>"

definition example_payload :: X402PaymentPayload where
  "example_payload =
     \<lparr>p_x402Version = 1, p_scheme = Some ''exact'', p_network = Some ''base'',
      p_payload = ''0xsigned'', p_resource = Some ''https://api.example.com/data'',
      p_payer = JString ''0xAgent'', p_from = JUndefined\<rparr>"

definition example_requirements :: X402PaymentRequirements where
  "example_requirements =
     \<lparr>r_scheme = Some ''exact'', r_network = Some ''base'', r_maxAmountRequired = Some ''45000000'',
      r_resource = Some ''https://api.example.com/data'', r_description = None,
      r_payTo = Some ''0xMerchant''\<rparr>"

text \<open>A policy engine that throws, one that asks for approval, and one that allows.\<close>

definition throwingPolicy :: "AgentTransaction \<Rightarrow> thrown + PolicyEvaluation" where
  "throwingPolicy tx = Inl (JsError ''malformed policy'')"

definition approvalPolicy :: "AgentTransaction \<Rightarrow> thrown + PolicyEvaluation" where
  "approvalPolicy tx =
     Inr \<lparr>action = RequireApproval, allowed = False, reason = ''approval required above 40'',
          details = None\<rparr>"

definition allowingPolicy :: "AgentTransaction \<Rightarrow> thrown + PolicyEvaluation" where
  "allowingPolicy tx =
     Inr \<lparr>action = Allow, allowed = True, reason = ''allowed'', details = None\<rparr>"

text \<open>A facilitator that accepts everything and counts its calls in the world.\<close>

definition countingClient :: "nat X402FacilitatorClient" where
  "countingClient =
     \<lparr>verify = (\<lambda>pl req w. (Inr \<lparr>isValid = True, invalidReason = None, v_payer = None\<rparr>, Suc w)),
      settle = (\<lambda>pl req w. (Inr \<lparr>success = True, txHash = Some ''0xhash'', s_network = Some ''base''\<rparr>,
                              Suc w))\<rparr>"

text \<open>
  The example transaction, an adapter that holds a context for it, and the adapter as a
  passed \<open>verify\<close> through the wrapped client leaves it.
\<close>

definition example_tx :: AgentTransaction where
  "example_tx = mapToTransaction example_env example_payload example_requirements (defaultConfig ''ps_session_1'')"

definition adapter_with_context :: adapter where
  "adapter_with_context =
     (newAdapter (defaultConfig ''ps_session_1'') False True)
       \<lparr>contexts := [transactionKey example_payload example_requirements \<mapsto> freshContext example_tx]\<rparr>"

definition adapter_after_verify :: adapter where
  "adapter_after_verify =
     fst (snd (wrapped_verify example_env allowingPolicy countingClient ''default''
                 example_payload example_requirements
                 (newAdapter (defaultConfig ''ps_session_1'') False True) 0))"



text \<open>Two custom resolvers: one that knows the example payer, one that always throws.\<close>

definition knownAgentResolver :: "string \<Rightarrow> thrown + string" where
  "knownAgentResolver address = (if address = ''0xAgent'' then Inr ''agent-7'' else Inl (JsError ''no such wallet''))"

definition failingResolver :: "string \<Rightarrow> thrown + string" where
  "failingResolver address = Inl (JsError ''lookup failed'')"

section \<open>Properties of the circuit breaker\<close>

lemma transitionTo_eq: "transitionTo b s = b\<lparr>state := s\<rparr>"
  by (simp add: transitionTo_def)

lemma step_inv:
  assumes "0 \<le> halfOpenRequests b" "state b \<noteq> HalfOpen \<longrightarrow> halfOpenRequests b = 0"
          "halfOpenRequests b \<le> max 0 (halfOpenMaxRequests cfg)"
  shows "0 \<le> halfOpenRequests (step cfg b e) \<and>
         (state (step cfg b e) \<noteq> HalfOpen \<longrightarrow> halfOpenRequests (step cfg b e) = 0) \<and>
         halfOpenRequests (step cfg b e) \<le> max 0 (halfOpenMaxRequests cfg)"
  using assms
  by (cases e) (auto simp: admit_def probeGate_def transitionTo_eq onSuccess_def onFailure_def reset_def Let_def)

lemma run_inv:
  "0 \<le> halfOpenRequests (run cfg evs) \<and>
   (state (run cfg evs) \<noteq> HalfOpen \<longrightarrow> halfOpenRequests (run cfg evs) = 0) \<and>
   halfOpenRequests (run cfg evs) \<le> max 0 (halfOpenMaxRequests cfg)"
proof (induction evs rule: rev_induct)
  case Nil
  show ?case by (simp add: run_def newBreaker_def)
next
  case (snoc e evs)
  have "run cfg (evs @ [e]) = step cfg (run cfg evs) e" by (simp add: run_def)
  with snoc step_inv[of "run cfg evs" cfg e] show ?case by simp
qed

lemma admitted_bound:
  "state b \<noteq> Closed \<Longrightarrow> 0 \<le> halfOpenRequests b \<Longrightarrow> (state b = Open \<longrightarrow> halfOpenRequests b = 0) \<Longrightarrow>
   halfOpenRequests b \<le> max 0 (halfOpenMaxRequests cfg) \<Longrightarrow>
   halfOpenRequests b + int (admitted cfg b ts) \<le> max 0 (halfOpenMaxRequests cfg)"
proof (induction ts arbitrary: b)
  case Nil
  then show ?case by simp
next
  case (Cons t ts)
  show ?case
  proof (cases "admit cfg [] t b :: unit exec_error option \<times> BreakerState")
    case (Pair r b1)
    have st: "state b1 \<noteq> Closed" "0 \<le> halfOpenRequests b1" "state b1 = Open \<longrightarrow> halfOpenRequests b1 = 0"
       "halfOpenRequests b1 \<le> max 0 (halfOpenMaxRequests cfg)"
       "halfOpenRequests b1 = halfOpenRequests b + (if r = None then 1 else 0)"
      using Pair Cons.prems
      by (cases "state b"; auto simp: admit_def probeGate_def transitionTo_eq Let_def split: if_splits)+
    from Cons.IH[OF st(1-4)] st(5) Pair show ?thesis
      by (cases r) auto
  qed
qed

lemma run_five_failures:
  "run DEFAULT_CONFIG five_failures =
     \<lparr>state = Open, failureCount = 5, successCount = 0, lastFailureTime = 100, halfOpenRequests = 0\<rparr>"
  by (simp add: run_def five_failures_def newBreaker_def onFailure_def transitionTo_eq DEFAULT_CONFIG_def Let_def)

lemma run_probe1:
  "run two_probe_config (five_failures @ [Begin 30100]) =
     \<lparr>state = HalfOpen, failureCount = 5, successCount = 0, lastFailureTime = 100, halfOpenRequests = 1\<rparr>"
  by (simp add: run_def five_failures_def newBreaker_def onFailure_def transitionTo_eq two_probe_config_def Let_def admit_def probeGate_def)

lemma run_probe2:
  "run two_probe_config (five_failures @ [Begin 30100, Begin 30101]) =
     \<lparr>state = HalfOpen, failureCount = 5, successCount = 0, lastFailureTime = 100, halfOpenRequests = 2\<rparr>"
  by (simp add: run_def five_failures_def newBreaker_def onFailure_def transitionTo_eq two_probe_config_def Let_def admit_def probeGate_def)

lemma onSuccess_closed_keeps_failureCount:
  "state b = Closed \<Longrightarrow> onSuccess b = b\<lparr>successCount := successCount b + 1\<rparr>"
  by (simp add: onSuccess_def)

text \<open>
  Claim C1. In the closed state every failing call increments \<open>failureCount\<close>, and the
  breaker is claimed to open only after \<open>failureThreshold\<close> failures in a row since the
  last success. The code never resets \<open>failureCount\<close> on a success in the closed state:
  with the default threshold 5, four failures, one success and one more failure leave
  the breaker open with \<open>failureCount = 5\<close>, one failure after the last success.
\<close>

theorem closed_success_does_not_reset_failureCount:
  "(case execute_all DEFAULT_CONFIG ''facilitator''
           [(fn_fail, 1, 2), (fn_fail, 3, 4), (fn_fail, 5, 6), (fn_fail, 7, 8),
            (fn_ok, 9, 10), (fn_fail, 11, 12)] Map.empty 0
    of (rs, bs, w) \<Rightarrow> (map_option state (bs ''facilitator''),
                       map_option failureCount (bs ''facilitator''), w))
   = (Some Open, Some 5, 6)"
  by (simp add: execute_def admit_def probeGate_def getOrCreate_def newBreaker_def onSuccess_def
      onFailure_def transitionTo_eq DEFAULT_CONFIG_def fn_ok_def fn_fail_def Let_def)

lemma run_five_failures_no_probe:
  "run no_probe_config five_failures =
     \<lparr>state = Open, failureCount = 5, successCount = 0, lastFailureTime = 100, halfOpenRequests = 0\<rparr>"
  by (simp add: run_def five_failures_def newBreaker_def onFailure_def transitionTo_eq
      no_probe_config_def Let_def)

text \<open>
  Claim C3 as stated lets the call after the cooldown always run \<open>fn\<close>. With a probe
  limit of 0 that call moves the breaker to half-open and is then rejected at the probe
  limit, with remaining time 0: \<open>fn\<close> is not invoked and the breaker stays half-open.
\<close>

theorem zero_probe_limit_rejects_after_cooldown:
  "state (run no_probe_config five_failures) = Open \<and>
   recoveryTimeoutMs no_probe_config \<le> 30100 - lastFailureTime (run no_probe_config five_failures) \<and>
   fn_ok 0 = (Inr ''ok'', 1) \<and>
   execute no_probe_config ''k'' fn_ok 30100 30101
     [''k'' \<mapsto> run no_probe_config five_failures] 0 =
     (Inl (CircuitBreakerOpenError ''k'' 0),
      [''k'' \<mapsto> \<lparr>state = HalfOpen, failureCount = 5, successCount = 0, lastFailureTime = 100,
                  halfOpenRequests = 0\<rparr>], 0)"
  by (simp only: run_five_failures_no_probe)
     (simp add: execute_def admit_def probeGate_def getOrCreate_def transitionTo_eq
        no_probe_config_def fn_ok_def Let_def)

text \<open>
  Claim C3, amended. For a breaker in the open state (any state the object can reach):
  while less than \<open>recoveryTimeoutMs\<close> has passed since \<open>lastFailureTime\<close>,
  \<open>execute\<close> throws \<open>CircuitBreakerOpenError\<close> carrying the remaining cooldown, leaves
  the breaker as it is and never invokes \<open>fn\<close> (the world is handed back untouched,
  whatever \<open>fn\<close> is); once the timeout has passed, the call itself moves the breaker to
  half-open and then, when \<open>halfOpenMaxRequests\<close> is at least 1, counts one probe and
  runs \<open>fn\<close>; when \<open>halfOpenMaxRequests\<close> is 0 or less it is rejected with remaining
  time 0 without invoking \<open>fn\<close>.
\<close>

theorem open_rejects_until_cooldown_then_probes:
  fixes fn :: "'w \<Rightarrow> ('e + 'a) \<times> 'w"
  assumes "bs key = Some b" and "b = run cfg evs" and "state b = Open"
  shows
    "(now - lastFailureTime b < recoveryTimeoutMs cfg \<longrightarrow>
        execute cfg key fn now t1 bs w =
          (Inl (CircuitBreakerOpenError key (recoveryTimeoutMs cfg - (now - lastFailureTime b))),
           bs, w)) \<and>
     (recoveryTimeoutMs cfg \<le> now - lastFailureTime b \<longrightarrow>
        state (snd (admit cfg key now b :: 'e exec_error option \<times> BreakerState)) = HalfOpen \<and>
        (0 < halfOpenMaxRequests cfg \<longrightarrow>
           admit cfg key now b =
             (None :: 'e exec_error option, b\<lparr>state := HalfOpen, halfOpenRequests := 1\<rparr>) \<and>
           execute cfg key fn now t1 bs w =
             (case fn w of
                (Inr r, w') \<Rightarrow>
                  (Inr r, bs(key \<mapsto> onSuccess (b\<lparr>state := HalfOpen, halfOpenRequests := 1\<rparr>)), w')
              | (Inl e, w') \<Rightarrow>
                  (Inl (Thrown e),
                   bs(key \<mapsto> onFailure cfg t1 (b\<lparr>state := HalfOpen, halfOpenRequests := 1\<rparr>)),
                   w'))) \<and>
        (halfOpenMaxRequests cfg \<le> 0 \<longrightarrow>
           execute cfg key fn now t1 bs w =
             (Inl (CircuitBreakerOpenError key 0), bs(key \<mapsto> b\<lparr>state := HalfOpen\<rparr>), w)))"
proof -
  have h0: "halfOpenRequests b = 0"
    using run_inv[of cfg evs] assms(2,3) by simp
  have same: "bs(key \<mapsto> b) = bs"
    using assms(1) by (simp add: map_upd_triv)
  have rej: "now - lastFailureTime b < recoveryTimeoutMs cfg \<Longrightarrow>
      execute cfg key fn now t1 bs w =
          (Inl (CircuitBreakerOpenError key (recoveryTimeoutMs cfg - (now - lastFailureTime b))),
           bs, w)"
    using assms(1,3) same by (simp add: execute_def admit_def getOrCreate_def Let_def)
  have st: "recoveryTimeoutMs cfg \<le> now - lastFailureTime b \<Longrightarrow>
      state (snd (admit cfg key now b :: 'e exec_error option \<times> BreakerState)) = HalfOpen"
    using assms(3) by (simp add: admit_def probeGate_def transitionTo_eq Let_def)
  have adm: "recoveryTimeoutMs cfg \<le> now - lastFailureTime b \<Longrightarrow> 0 < halfOpenMaxRequests cfg \<Longrightarrow>
      admit cfg key now b =
        (None :: 'e exec_error option, b\<lparr>state := HalfOpen, halfOpenRequests := 1\<rparr>)"
    using assms(3) h0 by (simp add: admit_def probeGate_def transitionTo_eq Let_def)
  have ex: "recoveryTimeoutMs cfg \<le> now - lastFailureTime b \<Longrightarrow> 0 < halfOpenMaxRequests cfg \<Longrightarrow>
      execute cfg key fn now t1 bs w =
          (case fn w of
             (Inr r, w') \<Rightarrow>
               (Inr r, bs(key \<mapsto> onSuccess (b\<lparr>state := HalfOpen, halfOpenRequests := 1\<rparr>)), w')
           | (Inl e, w') \<Rightarrow>
               (Inl (Thrown e),
                bs(key \<mapsto> onFailure cfg t1 (b\<lparr>state := HalfOpen, halfOpenRequests := 1\<rparr>)), w'))"
    using assms(1,3) h0
    by (simp add: execute_def getOrCreate_def admit_def probeGate_def transitionTo_eq Let_def)
  have zero: "recoveryTimeoutMs cfg \<le> now - lastFailureTime b \<Longrightarrow> halfOpenMaxRequests cfg \<le> 0 \<Longrightarrow>
      execute cfg key fn now t1 bs w =
        (Inl (CircuitBreakerOpenError key 0), bs(key \<mapsto> b\<lparr>state := HalfOpen\<rparr>), w)"
    using assms(1,3) h0
    by (simp add: execute_def getOrCreate_def admit_def probeGate_def transitionTo_eq Let_def)
  show ?thesis using rej st adm ex zero by blast
qed

theorem open_rejects_until_cooldown_then_probes_witness:
  "execute DEFAULT_CONFIG ''k'' fn_ok 200 201 [''k'' \<mapsto> run DEFAULT_CONFIG five_failures] 0 =
     (Inl (CircuitBreakerOpenError ''k'' 29900), [''k'' \<mapsto> run DEFAULT_CONFIG five_failures], 0) \<and>
   execute DEFAULT_CONFIG ''k'' fn_ok 30100 30101 [''k'' \<mapsto> run DEFAULT_CONFIG five_failures] 0 =
     (Inr ''ok'',
      [''k'' \<mapsto> \<lparr>state = Closed, failureCount = 0, successCount = 1, lastFailureTime = 100,
                  halfOpenRequests = 0\<rparr>], 1) \<and>
   execute no_probe_config ''k'' fn_ok 30100 30101 [''k'' \<mapsto> run no_probe_config five_failures] 0 =
     (Inl (CircuitBreakerOpenError ''k'' 0),
      [''k'' \<mapsto> \<lparr>state = HalfOpen, failureCount = 5, successCount = 0, lastFailureTime = 100,
                  halfOpenRequests = 0\<rparr>], 0)"
proof -
  let ?b = "run DEFAULT_CONFIG five_failures"
  let ?bs = "[''k'' \<mapsto> ?b]"
  let ?c = "run no_probe_config five_failures"
  let ?cs = "[''k'' \<mapsto> ?c]"
  have h1: "?bs ''k'' = Some ?b" by simp
  have h3: "state ?b = Open" by (simp add: run_five_failures)
  have k1: "?cs ''k'' = Some ?c" by simp
  have k3: "state ?c = Open" by (simp add: run_five_failures_no_probe)
  have h4: "0 < halfOpenMaxRequests DEFAULT_CONFIG" by (simp add: DEFAULT_CONFIG_def)
  have k4: "halfOpenMaxRequests no_probe_config \<le> 0" by (simp add: no_probe_config_def)
  have lt: "200 - lastFailureTime ?b < recoveryTimeoutMs DEFAULT_CONFIG"
    by (simp only: run_five_failures) (simp add: DEFAULT_CONFIG_def)
  have ge: "recoveryTimeoutMs DEFAULT_CONFIG \<le> 30100 - lastFailureTime ?b"
    by (simp only: run_five_failures) (simp add: DEFAULT_CONFIG_def)
  have ge0: "recoveryTimeoutMs no_probe_config \<le> 30100 - lastFailureTime ?c"
    by (simp only: run_five_failures_no_probe) (simp add: no_probe_config_def)
  from open_rejects_until_cooldown_then_probes[where bs="?bs" and key="''k''" and b="?b" and cfg=DEFAULT_CONFIG and evs=five_failures
            and now=200 and fn=fn_ok and ?t1.0=201 and w="0::nat", OF h1 refl h3] lt
  have a: "execute DEFAULT_CONFIG ''k'' fn_ok 200 201 ?bs 0 =
     (Inl (CircuitBreakerOpenError ''k'' 29900), ?bs, 0)"
    by (simp only: run_five_failures) (simp add: DEFAULT_CONFIG_def)
  from open_rejects_until_cooldown_then_probes[where bs="?bs" and key="''k''" and b="?b" and cfg=DEFAULT_CONFIG and evs=five_failures
            and now=30100 and fn=fn_ok and ?t1.0=30101 and w="0::nat", OF h1 refl h3] ge h4
  have b: "execute DEFAULT_CONFIG ''k'' fn_ok 30100 30101 ?bs 0 =
     (Inr ''ok'',
      [''k'' \<mapsto> \<lparr>state = Closed, failureCount = 0, successCount = 1, lastFailureTime = 100,
                  halfOpenRequests = 0\<rparr>], 1)"
    by (simp add: run_five_failures fn_ok_def onSuccess_def transitionTo_eq Let_def)
  from open_rejects_until_cooldown_then_probes[where bs="?cs" and key="''k''" and b="?c" and cfg=no_probe_config and evs=five_failures
            and now=30100 and fn=fn_ok and ?t1.0=30101 and w="0::nat", OF k1 refl k3] ge0 k4
  have c: "execute no_probe_config ''k'' fn_ok 30100 30101 ?cs 0 =
     (Inl (CircuitBreakerOpenError ''k'' 0),
      [''k'' \<mapsto> \<lparr>state = HalfOpen, failureCount = 5, successCount = 0, lastFailureTime = 100,
                  halfOpenRequests = 0\<rparr>], 0)"
    by (simp add: run_five_failures_no_probe)
  from a b c show ?thesis by simp
qed

text \<open>
  Claim C4. For a breaker in the half-open state: a call arriving when
  \<open>halfOpenRequests\<close> has reached \<open>halfOpenMaxRequests\<close> is rejected without invoking
  the wrapped function; an admitted probe that succeeds closes the breaker and resets
  \<open>failureCount\<close> to 0; one that fails re-opens it at once and resets the probe
  counter; the same holds for the completion of any call that ends while the breaker is
  half-open. Of any burst of calls that start before one completes, the probes already
  counted plus those admitted never exceed \<open>halfOpenMaxRequests\<close>, also when the
  burst starts on an open breaker and makes the transition itself.
\<close>

theorem half_open_probe_limit_and_outcomes:
  assumes "bs key = Some b" and "b = run cfg evs" and "state b = HalfOpen"
  shows
    "(halfOpenMaxRequests cfg \<le> halfOpenRequests b \<longrightarrow>
        execute cfg key fn t0 t1 bs w = (Inl (CircuitBreakerOpenError key 0), bs, w)) \<and>
     (halfOpenRequests b < halfOpenMaxRequests cfg \<longrightarrow>
        execute cfg key fn t0 t1 bs w =
          (case fn w of
             (Inr r, w') \<Rightarrow>
               (Inr r, bs(key \<mapsto> b\<lparr>state := Closed, failureCount := 0, halfOpenRequests := 0,
                                      successCount := successCount b + 1\<rparr>), w')
           | (Inl e, w') \<Rightarrow>
               (Inl (Thrown e),
                bs(key \<mapsto> b\<lparr>failureCount := failureCount b + 1, lastFailureTime := t1,
                              state := Open, halfOpenRequests := 0\<rparr>), w'))) \<and>
     state (onSuccess b) = Closed \<and> failureCount (onSuccess b) = 0 \<and>
     halfOpenRequests (onSuccess b) = 0 \<and>
     state (onFailure cfg t1 b) = Open \<and> halfOpenRequests (onFailure cfg t1 b) = 0 \<and>
     halfOpenRequests b + int (admitted cfg b ts) \<le> max 0 (halfOpenMaxRequests cfg) \<and>
     (\<forall>evs0. state (run cfg evs0) = Open \<longrightarrow>
        int (admitted cfg (run cfg evs0) ts) \<le> max 0 (halfOpenMaxRequests cfg))"
proof -
  have same: "bs(key \<mapsto> b) = bs"
    using assms(1) by (simp add: map_upd_triv)
  have gate: "halfOpenMaxRequests cfg \<le> halfOpenRequests b \<Longrightarrow>
        execute cfg key fn t0 t1 bs w = (Inl (CircuitBreakerOpenError key 0), bs, w)"
    using assms(1,3) same by (simp add: execute_def admit_def probeGate_def getOrCreate_def)
  have probe: "halfOpenRequests b < halfOpenMaxRequests cfg \<Longrightarrow>
        execute cfg key fn t0 t1 bs w =
          (case fn w of
             (Inr r, w') \<Rightarrow>
               (Inr r, bs(key \<mapsto> b\<lparr>state := Closed, failureCount := 0, halfOpenRequests := 0,
                                      successCount := successCount b + 1\<rparr>), w')
           | (Inl e, w') \<Rightarrow>
               (Inl (Thrown e),
                bs(key \<mapsto> b\<lparr>failureCount := failureCount b + 1, lastFailureTime := t1,
                              state := Open, halfOpenRequests := 0\<rparr>), w'))"
    using assms(1,3)
    by (simp add: execute_def admit_def probeGate_def getOrCreate_def onSuccess_def onFailure_def
        transitionTo_eq Let_def split: prod.splits sum.splits)
  have done_ok: "state (onSuccess b) = Closed \<and> failureCount (onSuccess b) = 0 \<and>
     halfOpenRequests (onSuccess b) = 0"
    using assms(3) by (simp add: onSuccess_def transitionTo_eq Let_def)
  have done_fail: "state (onFailure cfg t1 b) = Open \<and> halfOpenRequests (onFailure cfg t1 b) = 0"
    using assms(3) by (simp add: onFailure_def transitionTo_eq Let_def)
  have burst: "state (run cfg es) \<noteq> Closed \<Longrightarrow>
     halfOpenRequests (run cfg es) + int (admitted cfg (run cfg es) ts)
       \<le> max 0 (halfOpenMaxRequests cfg)" for es
    using run_inv[of cfg es] by (intro admitted_bound) auto
  have b1: "halfOpenRequests b + int (admitted cfg b ts) \<le> max 0 (halfOpenMaxRequests cfg)"
    using burst[of evs] assms(2,3) by simp
  have b2: "state (run cfg evs0) = Open \<Longrightarrow>
        int (admitted cfg (run cfg evs0) ts) \<le> max 0 (halfOpenMaxRequests cfg)" for evs0
    using burst[of evs0] run_inv[of cfg evs0] by simp
  show ?thesis using gate probe done_ok done_fail b1 b2 by blast
qed

theorem half_open_probe_limit_and_outcomes_witness:
  "execute two_probe_config ''k'' fn_ok 30102 30103 [''k'' \<mapsto> run two_probe_config (five_failures @ [Begin 30100, Begin 30101])] 0 =
     (Inl (CircuitBreakerOpenError ''k'' 0), [''k'' \<mapsto> run two_probe_config (five_failures @ [Begin 30100, Begin 30101])], 0) \<and>
   execute two_probe_config ''k'' fn_fail 30102 30103 [''k'' \<mapsto> run two_probe_config (five_failures @ [Begin 30100])] 0 =
     (Inl (Thrown ''boom''),
      [''k'' \<mapsto> \<lparr>state = Open, failureCount = 6, successCount = 0, lastFailureTime = 30103,
                  halfOpenRequests = 0\<rparr>], 1) \<and>
   state (run two_probe_config five_failures) = Open \<and>
   int (admitted two_probe_config (run two_probe_config five_failures) [200, 30100, 30101, 30102, 30103]) \<le> 2"
proof -
  let ?b2 = "run two_probe_config (five_failures @ [Begin 30100, Begin 30101])"
  let ?b1 = "run two_probe_config (five_failures @ [Begin 30100])"
  have g: "halfOpenMaxRequests two_probe_config \<le> halfOpenRequests ?b2"
    by (simp only: run_probe2) (simp add: two_probe_config_def)
  have l: "halfOpenRequests ?b1 < halfOpenMaxRequests two_probe_config"
    by (simp only: run_probe1) (simp add: two_probe_config_def)
  have s2: "state ?b2 = HalfOpen" by (simp add: run_probe2)
  have s1: "state ?b1 = HalfOpen" by (simp add: run_probe1)
  have o: "state (run two_probe_config five_failures) = Open"
    by (simp add: run_def five_failures_def newBreaker_def onFailure_def transitionTo_eq two_probe_config_def Let_def)
  have a: "execute two_probe_config ''k'' fn_ok 30102 30103 [''k'' \<mapsto> ?b2] 0 =
     (Inl (CircuitBreakerOpenError ''k'' 0), [''k'' \<mapsto> ?b2], 0)"
    using half_open_probe_limit_and_outcomes[where bs="[''k'' \<mapsto> ?b2]" and key="''k''" and b="?b2" and cfg=two_probe_config
        and evs="five_failures @ [Begin 30100, Begin 30101]" and fn=fn_ok and ?t0.0=30102 and ?t1.0=30103
        and w="0::nat", OF _ refl s2] g by simp
  have b: "execute two_probe_config ''k'' fn_fail 30102 30103 [''k'' \<mapsto> ?b1] 0 =
     (Inl (Thrown ''boom''),
      [''k'' \<mapsto> \<lparr>state = Open, failureCount = 6, successCount = 0, lastFailureTime = 30103,
                  halfOpenRequests = 0\<rparr>], 1)"
    using half_open_probe_limit_and_outcomes[where bs="[''k'' \<mapsto> ?b1]" and key="''k''" and b="?b1" and cfg=two_probe_config
        and evs="five_failures @ [Begin 30100]" and fn=fn_fail and ?t0.0=30102 and ?t1.0=30103
        and w="0::nat", OF _ refl s1] l
    by (simp add: fn_fail_def run_probe1)
  have c: "int (admitted two_probe_config (run two_probe_config five_failures) [200, 30100, 30101, 30102, 30103]) \<le> 2"
    using half_open_probe_limit_and_outcomes[where bs="[''k'' \<mapsto> ?b1]" and key="''k''" and b="?b1" and cfg=two_probe_config
        and evs="five_failures @ [Begin 30100]" and fn=fn_fail and ?t0.0=30102 and ?t1.0=30103
        and w="0::nat" and ts="[200, 30100, 30101, 30102, 30103]", OF _ refl s1] o
    by (simp add: two_probe_config_def)
  from a b o c show ?thesis by simp
qed

section \<open>Properties of the transaction mapper\<close>

lemma startsWith_iff: "startsWith s sub \<longleftrightarrow> (\<exists>q. s = sub @ q)"
  by (induction s sub rule: startsWith.induct) auto

lemma includes_str_iff: "includes_str s sub \<longleftrightarrow> (\<exists>p q. s = p @ sub @ q)"
proof (induction s)
  case Nil
  then show ?case by simp
next
  case (Cons x xs)
  show ?case
  proof
    assume "includes_str (x # xs) sub"
    then consider "startsWith (x # xs) sub" | "includes_str xs sub" by auto
    then show "\<exists>p q. x # xs = p @ sub @ q"
    proof cases
      case 1
      then obtain q where "x # xs = sub @ q" by (auto simp: startsWith_iff)
      then have "x # xs = [] @ sub @ q" by simp
      then show ?thesis by blast
    next
      case 2
      then obtain p q where "xs = p @ sub @ q" using Cons.IH by blast
      then have "x # xs = (x # p) @ sub @ q" by simp
      then show ?thesis by blast
    qed
  next
    assume "\<exists>p q. x # xs = p @ sub @ q"
    then obtain p q where pq: "x # xs = p @ sub @ q" by blast
    show "includes_str (x # xs) sub"
    proof (cases p)
      case Nil
      with pq have "startsWith (x # xs) sub" by (auto simp: startsWith_iff)
      then show ?thesis by simp
    next
      case (Cons y ys)
      with pq have "xs = ys @ sub @ q" by simp
      then have "includes_str xs sub" using Cons.IH by blast
      then show ?thesis by simp
    qed
  qed
qed

lemma toLowerCase_Nil: "toLowerCase [] = []"
  by (simp add: toLowerCase_def)

lemma extractPayerAddress_eq: "extractPayerAddress pl = payerIdentifier pl"
  by (simp add: extractPayerAddress_def payerIdentifier_def nonEmptyString_def
      split: jsvalue.splits)

text \<open>
  Claim C9. \<open>extractAgent\<close> returns what the first yielding source gives, in the
  order custom resolver, payer identifier from the payload, configured default agent
  id, \<open>unknown-agent\<close>. Case by case: when the payload's \<open>payer\<close> is a non-empty
  string, or else its \<open>from\<close> is, that string is the payer identifier; a configured
  resolver that returns on it decides, and when the resolver throws or none is
  configured the identifier itself is the result. When neither field is a non-empty
  string the result is the configured default, or \<open>unknown-agent\<close> without one.
\<close>

theorem extractAgent_resolution_order:
  "agentResolutionOrder pl cfg = Some (extractAgent pl cfg) \<and>
   (\<forall>s. (p_payer pl = JString s \<and> s \<noteq> []) \<or>
         ((\<forall>t. p_payer pl = JString t \<longrightarrow> t = []) \<and> p_from pl = JString s \<and> s \<noteq> []) \<longrightarrow>
      (\<forall>f agent. resolveAgentId cfg = Some f \<and> f s = Inr agent \<longrightarrow> extractAgent pl cfg = agent) \<and>
      (\<forall>f err. resolveAgentId cfg = Some f \<and> f s = Inl err \<longrightarrow> extractAgent pl cfg = s) \<and>
      (resolveAgentId cfg = None \<longrightarrow> extractAgent pl cfg = s)) \<and>
   ((\<forall>t. p_payer pl = JString t \<longrightarrow> t = []) \<and> (\<forall>t. p_from pl = JString t \<longrightarrow> t = []) \<longrightarrow>
      (\<forall>d. defaultAgentId cfg = Some d \<longrightarrow> extractAgent pl cfg = d) \<and>
      (defaultAgentId cfg = None \<longrightarrow> extractAgent pl cfg = ''unknown-agent''))"
proof -
  have ord: "agentResolutionOrder pl cfg = Some (extractAgent pl cfg)"
    by (simp add: agentResolutionOrder_def resolverSource_def extractAgent_def
        extractPayerAddress_eq split: option.splits sum.splits)
  have found: "(p_payer pl = JString s \<and> s \<noteq> []) \<or>
         ((\<forall>t. p_payer pl = JString t \<longrightarrow> t = []) \<and> p_from pl = JString s \<and> s \<noteq> []) \<Longrightarrow>
      extractPayerAddress pl = Some s" for s
    by (cases "p_payer pl") (auto simp: extractPayerAddress_def)
  have missing: "(\<forall>t. p_payer pl = JString t \<longrightarrow> t = []) \<and> (\<forall>t. p_from pl = JString t \<longrightarrow> t = []) \<Longrightarrow>
      extractPayerAddress pl = None"
    by (cases "p_payer pl"; cases "p_from pl") (auto simp: extractPayerAddress_def)
  have a: "(p_payer pl = JString s \<and> s \<noteq> []) \<or>
         ((\<forall>t. p_payer pl = JString t \<longrightarrow> t = []) \<and> p_from pl = JString s \<and> s \<noteq> []) \<Longrightarrow>
      (\<forall>f agent. resolveAgentId cfg = Some f \<and> f s = Inr agent \<longrightarrow> extractAgent pl cfg = agent) \<and>
      (\<forall>f err. resolveAgentId cfg = Some f \<and> f s = Inl err \<longrightarrow> extractAgent pl cfg = s) \<and>
      (resolveAgentId cfg = None \<longrightarrow> extractAgent pl cfg = s)" for s
    using found[of s] by (auto simp: extractAgent_def)
  have b: "(\<forall>t. p_payer pl = JString t \<longrightarrow> t = []) \<and> (\<forall>t. p_from pl = JString t \<longrightarrow> t = []) \<Longrightarrow>
      (\<forall>d. defaultAgentId cfg = Some d \<longrightarrow> extractAgent pl cfg = d) \<and>
      (defaultAgentId cfg = None \<longrightarrow> extractAgent pl cfg = ''unknown-agent'')"
    using missing by (auto simp: extractAgent_def)
  show ?thesis using ord a b by blast
qed

theorem extractAgent_resolution_order_witness:
  "extractAgent example_payload
     ((defaultConfig ''ps_session_1'')\<lparr>resolveAgentId := Some knownAgentResolver,
        defaultAgentId := Some ''fallback-agent''\<rparr>) = ''agent-7'' \<and>
   extractAgent example_payload
     ((defaultConfig ''ps_session_1'')\<lparr>resolveAgentId := Some failingResolver,
        defaultAgentId := Some ''fallback-agent''\<rparr>) = ''0xAgent'' \<and>
   extractAgent example_payload (defaultConfig ''ps_session_1'') = ''0xAgent'' \<and>
   extractAgent (example_payload\<lparr>p_payer := JOther, p_from := JString ''0xSender''\<rparr>)
     (defaultConfig ''ps_session_1'') = ''0xSender'' \<and>
   extractAgent (example_payload\<lparr>p_payer := JString []\<rparr>)
     ((defaultConfig ''ps_session_1'')\<lparr>resolveAgentId := Some knownAgentResolver,
        defaultAgentId := Some ''fallback-agent''\<rparr>) = ''fallback-agent'' \<and>
   extractAgent (example_payload\<lparr>p_payer := JUndefined\<rparr>) (defaultConfig ''ps_session_1'') =
     ''unknown-agent''"
proof -
  let ?c = "defaultConfig ''ps_session_1''"
  let ?r = "?c\<lparr>resolveAgentId := Some knownAgentResolver, defaultAgentId := Some ''fallback-agent''\<rparr>"
  let ?f = "?c\<lparr>resolveAgentId := Some failingResolver, defaultAgentId := Some ''fallback-agent''\<rparr>"
  have p: "p_payer example_payload = JString ''0xAgent''" "p_from example_payload = JUndefined"
    by (simp_all add: example_payload_def)
  have k: "knownAgentResolver ''0xAgent'' = Inr ''agent-7''"
    by (simp add: knownAgentResolver_def)
  have l: "failingResolver ''0xAgent'' = Inl (JsError ''lookup failed'')"
    by (simp add: failingResolver_def)
  have c: "resolveAgentId ?c = None" "defaultAgentId ?c = None"
    by (simp_all add: defaultConfig_def)
  have a1: "extractAgent example_payload ?r = ''agent-7''"
    using extractAgent_resolution_order[of example_payload ?r] p k by simp
  have a2: "extractAgent example_payload ?f = ''0xAgent''"
    using extractAgent_resolution_order[of example_payload ?f] p l by simp
  have a3: "extractAgent example_payload ?c = ''0xAgent''"
    using extractAgent_resolution_order[of example_payload ?c] p c by simp
  have a4: "extractAgent (example_payload\<lparr>p_payer := JOther, p_from := JString ''0xSender''\<rparr>) ?c
      = ''0xSender''"
    using extractAgent_resolution_order[of "example_payload\<lparr>p_payer := JOther, p_from := JString ''0xSender''\<rparr>" ?c] c by simp
  have a5: "extractAgent (example_payload\<lparr>p_payer := JString []\<rparr>) ?r = ''fallback-agent''"
    using extractAgent_resolution_order[of "example_payload\<lparr>p_payer := JString []\<rparr>" ?r] p by simp
  have a6: "extractAgent (example_payload\<lparr>p_payer := JUndefined\<rparr>) ?c = ''unknown-agent''"
    using extractAgent_resolution_order[of "example_payload\<lparr>p_payer := JUndefined\<rparr>" ?c] p c by simp
  from a1 a2 a3 a4 a5 a6 show ?thesis by simp
qed

text \<open>
  Claim C10. \<open>extractAmount\<close> never returns \<open>NaN\<close>; it returns 0 when
  \<open>maxAmountRequired\<close> is absent, empty or converts to \<open>NaN\<close>; otherwise it returns
  the converted value divided by \<open>10^18\<close> when the lower-cased scheme contains \<open>eth\<close>
  or \<open>ether\<close>, and by \<open>10^6\<close> when it does not (or when there is no scheme).
\<close>

theorem extractAmount_total:
  "extractAmount e req \<noteq> NaN \<and>
   (r_maxAmountRequired req = None \<or> r_maxAmountRequired req = Some [] \<or>
    (\<exists>raw. r_maxAmountRequired req = Some raw \<and> Number e raw = NaN)
      \<longrightarrow> extractAmount e req = Finite 0) \<and>
   (\<forall>raw. r_maxAmountRequired req = Some raw \<and> raw \<noteq> [] \<and> Number e raw \<noteq> NaN \<longrightarrow>
      extractAmount e req =
        divPow10 (roundDouble e) (Number e raw)
          (if includes_str (toLowerCase (case r_scheme req of Some s \<Rightarrow> s | None \<Rightarrow> [])) ''eth'' \<or>
              includes_str (toLowerCase (case r_scheme req of Some s \<Rightarrow> s | None \<Rightarrow> [])) ''ether''
           then 18 else 6))"
proof -
  have nan: "x \<noteq> NaN \<Longrightarrow> divPow10 rd x d \<noteq> NaN" for rd x d
    by (cases x) (simp_all add: divPow10_def)
  have a: "extractAmount e req \<noteq> NaN"
    using nan by (simp add: extractAmount_def Let_def split: option.splits)
  have b: "r_maxAmountRequired req = None \<or> r_maxAmountRequired req = Some [] \<or>
    (\<exists>raw. r_maxAmountRequired req = Some raw \<and> Number e raw = NaN)
      \<Longrightarrow> extractAmount e req = Finite 0"
    by (auto simp: extractAmount_def Let_def split: option.splits)
  have c: "r_maxAmountRequired req = Some raw \<and> raw \<noteq> [] \<and> Number e raw \<noteq> NaN \<Longrightarrow>
      extractAmount e req =
        divPow10 (roundDouble e) (Number e raw)
          (if includes_str (toLowerCase (case r_scheme req of Some s \<Rightarrow> s | None \<Rightarrow> [])) ''eth'' \<or>
              includes_str (toLowerCase (case r_scheme req of Some s \<Rightarrow> s | None \<Rightarrow> [])) ''ether''
           then 18 else 6)" for raw
    by (cases "r_scheme req") (simp_all add: extractAmount_def inferDecimals_def Let_def toLowerCase_Nil)
  show ?thesis using a b c by blast
qed

theorem extractAmount_total_witness:
  "extractAmount example_env example_requirements = Finite 45 \<and>
   extractAmount example_env (example_requirements\<lparr>r_maxAmountRequired := Some ''12abc''\<rparr>) = Finite 0 \<and>
   extractAmount example_env (example_requirements\<lparr>r_maxAmountRequired := None\<rparr>) = Finite 0 \<and>
   extractAmount example_env (example_requirements\<lparr>r_scheme := Some ''Exact-ETH''\<rparr>) =
     Finite (45000000 / 10 ^ 18)"
proof -
  have n1: "Number example_env ''45000000'' = Finite 45000000"
    by (simp add: example_env_def)
  have n2: "Number example_env ''12abc'' = NaN"
    by (simp add: example_env_def)
  have a: "extractAmount example_env example_requirements = Finite 45"
    using extractAmount_total[of example_env example_requirements] n1
    by (simp add: example_requirements_def example_env_def divPow10_def toLowerCase_def toLowerChar_def)
  have b: "extractAmount example_env (example_requirements\<lparr>r_maxAmountRequired := Some ''12abc''\<rparr>) = Finite 0"
    using extractAmount_total[of example_env "example_requirements\<lparr>r_maxAmountRequired := Some ''12abc''\<rparr>"] n2
    by simp
  have c: "extractAmount example_env (example_requirements\<lparr>r_maxAmountRequired := None\<rparr>) = Finite 0"
    using extractAmount_total[of example_env "example_requirements\<lparr>r_maxAmountRequired := None\<rparr>"]
    by simp
  have d: "extractAmount example_env (example_requirements\<lparr>r_scheme := Some ''Exact-ETH''\<rparr>) =
     Finite (45000000 / 10 ^ 18)"
    using extractAmount_total[of example_env "example_requirements\<lparr>r_scheme := Some ''Exact-ETH''\<rparr>"] n1
    by (simp add: example_requirements_def example_env_def divPow10_def toLowerCase_def toLowerChar_def)
  from a b c d show ?thesis by simp
qed

section \<open>Properties of the adapter\<close>

lemma example_key:
  "transactionKey example_payload example_requirements = ''x402:0xAgent:0xMerchant:45000000''"
  by (simp add: transactionKey_def extractPayerAddress_def example_payload_def example_requirements_def)

lemma example_tx_id: "tx_id example_tx = ''tx_1''"
  by (simp add: example_tx_def mapToTransaction_def createTransaction_def example_env_def Let_def)

lemma example_tx_eq:
  "mapToTransaction example_env example_payload example_requirements (defaultConfig ''ps_session_1'')
     = example_tx"
  by (simp add: example_tx_def)

lemma config_newAdapter: "config (newAdapter c x y) = c"
  by (simp add: newAdapter_def)

lemma approval_example:
  "approvalPolicy t =
     Inr \<lparr>action = RequireApproval, allowed = False, reason = ''approval required above 40'',
          details = None\<rparr>"
  by (simp add: approvalPolicy_def)

lemma execute_example_verify:
  "execute DEFAULT_CONFIG ''default'' (verify countingClient example_payload example_requirements)
     t0 t1 Map.empty (0::nat) =
   (Inr \<lparr>isValid = True, invalidReason = None, v_payer = None\<rparr>,
    [''default'' \<mapsto> onSuccess newBreaker], 1)"
  by (simp add: execute_def admit_def probeGate_def getOrCreate_def newBreaker_def countingClient_def)

lemma recordProvenance_fields:
  "config (recordProvenance c a) = config a"
  "breakers (recordProvenance c a) = breakers a"
  "contexts (recordProvenance c a) = contexts a"
  "provenance (recordProvenance c a) = map_option (\<lambda>cs. cs @ [c]) (provenance a)"
  by (simp_all add: recordProvenance_def)

lemma newAdapter_fields:
  "breakers (newAdapter c x y) = Map.empty"
  "contexts (newAdapter c x y) = Map.empty"
  "provenance (newAdapter c x True) = Some []"
  by (simp_all add: newAdapter_def)

lemma circuitBreaker_default: "circuitBreaker (defaultConfig s) = DEFAULT_CONFIG"
  by (simp add: defaultConfig_def)

lemma after_verify_context:
  "contexts adapter_after_verify (transactionKey example_payload example_requirements) =
     Some \<lparr>transaction = example_tx,
           policyResult = Some \<lparr>action = Allow, allowed = True, reason = ''allowed'', details = None\<rparr>,
           verifyData = Some \<lparr>isValid = True, invalidReason = None, v_payer = None\<rparr>,
           settleData = None, ts_created = createdAt example_tx,
           ts_verified = Some (isoNow example_env 1), ts_settled = None\<rparr>"
  by (simp add: adapter_after_verify_def wrapped_verify_def allowingPolicy_def
      config_newAdapter example_tx_eq Let_def recordProvenance_fields newAdapter_fields
      circuitBreaker_default execute_example_verify)

lemma after_verify_config:
  "config adapter_after_verify = defaultConfig ''ps_session_1'' \<and>
   provenance adapter_after_verify \<noteq> None"
  by (simp add: adapter_after_verify_def wrapped_verify_def allowingPolicy_def
      config_newAdapter example_tx_eq Let_def recordProvenance_fields newAdapter_fields
      circuitBreaker_default execute_example_verify)

lemma handleBeforeVerify_returns_void_when_policy_throws:
  "evaluate (mapToTransaction e pl req (config a)) = Inl err \<Longrightarrow>
   fst (handleBeforeVerify e evaluate pl req a) = None"
  by (simp add: handleBeforeVerify_def Let_def)

text \<open>
  Claim C2. An internal error of the policy evaluation during the pre-verify check is
  claimed to end in default-deny. In \<open>handleBeforeVerify\<close> the error is caught and the
  hook returns \<open>void\<close>: with the constructor's defaults (\<open>failOpen\<close> unset,
  \<open>abortOnPolicyDeny\<close> true) and a policy engine that throws, no abort is returned and
  the payment goes on to verification.
\<close>

theorem handleBeforeVerify_fails_open_on_policy_error:
  "failOpen (defaultConfig ''ps_session_1'') = None \<and>
   abortOnPolicyDeny (defaultConfig ''ps_session_1'') = True \<and>
   fst (handleBeforeVerify example_env throwingPolicy example_payload example_requirements
          (newAdapter (defaultConfig ''ps_session_1'') False True)) = None"
  by (simp add: handleBeforeVerify_def throwingPolicy_def defaultConfig_def Let_def)

text \<open>
  Claim C5 as stated asks for a \<open>policy_check: fail\<close> provenance entry on every denied
  payment. The provenance recorder is an optional engine: an adapter built without one
  (as in the package's quick start) aborts the denied payment and records nothing.
\<close>

theorem policy_denial_without_recorder_records_nothing:
  "approvalPolicy (mapToTransaction example_env example_payload example_requirements
                     (defaultConfig ''ps_session_1'')) =
     Inr \<lparr>action = RequireApproval, allowed = False, reason = ''approval required above 40'',
          details = None\<rparr> \<and>
   abortOnPolicyDeny (defaultConfig ''ps_session_1'') \<and>
   \<not> policyCheckRecorded ''tx_1'' OutcomeFail
        (fst (snd (wrapped_verify example_env approvalPolicy countingClient ''default''
                     example_payload example_requirements
                     (newAdapter (defaultConfig ''ps_session_1'') False False) 0)))"
  by (simp add: wrapped_verify_def approvalPolicy_def defaultConfig_def newAdapter_def
      recordProvenance_def policyCheckRecorded_def Let_def)

text \<open>
  Claim C5, amended. When the pre-verify policy evaluation returns a result that is not
  allowed and \<open>abortOnPolicyDeny\<close> is true, the wrapped \<open>verify\<close> returns an invalid
  response without invoking the facilitator (the world and the breakers are unchanged,
  whatever the client is) and the \<open>onBeforeVerify\<close> hook returns an abort; in both
  paths a \<open>policy_check: fail\<close> entry for the transaction is recorded when a
  provenance recorder is configured.
\<close>

theorem policy_denial_aborts_before_verify:
  fixes client :: "'w X402FacilitatorClient"
  assumes "evaluate (mapToTransaction e pl req (config a)) = Inr pr"
    and "\<not> allowed pr" and "abortOnPolicyDeny (config a)"
  shows
    "fst (wrapped_verify e evaluate client facilitatorKey pl req a w) =
       Inr \<lparr>isValid = False, invalidReason = Some (''PaySentry policy denied: '' @ reason pr),
            v_payer = None\<rparr> \<and>
     snd (snd (wrapped_verify e evaluate client facilitatorKey pl req a w)) = w \<and>
     breakers (fst (snd (wrapped_verify e evaluate client facilitatorKey pl req a w))) = breakers a \<and>
     (provenance a \<noteq> None \<longrightarrow>
        policyCheckRecorded (tx_id (mapToTransaction e pl req (config a))) OutcomeFail
          (fst (snd (wrapped_verify e evaluate client facilitatorKey pl req a w)))) \<and>
     fst (handleBeforeVerify e evaluate pl req a) =
       Some \<lparr>abort = True, abortReason = ''PaySentry policy denied: '' @ reason pr\<rparr> \<and>
     (provenance a \<noteq> None \<longrightarrow>
        policyCheckRecorded (tx_id (mapToTransaction e pl req (config a))) OutcomeFail
          (snd (handleBeforeVerify e evaluate pl req a)))"
  using assms
  by (auto simp: wrapped_verify_def handleBeforeVerify_def recordProvenance_def
      policyCheckRecorded_def Let_def)

theorem policy_denial_aborts_before_verify_witness:
  "fst (wrapped_verify example_env approvalPolicy countingClient ''default'' example_payload
          example_requirements (newAdapter (defaultConfig ''ps_session_1'') False True) 0) =
     Inr \<lparr>isValid = False,
          invalidReason = Some ''PaySentry policy denied: approval required above 40'',
          v_payer = None\<rparr> \<and>
   snd (snd (wrapped_verify example_env approvalPolicy countingClient ''default'' example_payload
          example_requirements (newAdapter (defaultConfig ''ps_session_1'') False True) 0)) = 0 \<and>
   policyCheckRecorded ''tx_1'' OutcomeFail
     (fst (snd (wrapped_verify example_env approvalPolicy countingClient ''default'' example_payload
          example_requirements (newAdapter (defaultConfig ''ps_session_1'') False True) 0))) \<and>
   fst (handleBeforeVerify example_env approvalPolicy example_payload example_requirements
          (newAdapter (defaultConfig ''ps_session_1'') False True)) =
     Some \<lparr>abort = True, abortReason = ''PaySentry policy denied: approval required above 40''\<rparr> \<and>
   policyCheckRecorded ''tx_1'' OutcomeFail
     (snd (handleBeforeVerify example_env approvalPolicy example_payload example_requirements
          (newAdapter (defaultConfig ''ps_session_1'') False True)))"
proof -
  let ?a = "newAdapter (defaultConfig ''ps_session_1'') False True"
  let ?pr = "\<lparr>action = RequireApproval, allowed = False, reason = ''approval required above 40'',
          details = None\<rparr>"
  have h1: "approvalPolicy (mapToTransaction example_env example_payload example_requirements (config ?a))
     = Inr ?pr"
    by (rule approval_example)
  have h2: "\<not> allowed ?pr" by simp
  have h3: "abortOnPolicyDeny (config ?a)" by (simp add: newAdapter_def defaultConfig_def)
  have p: "provenance ?a \<noteq> None" by (simp add: newAdapter_def)
  from policy_denial_aborts_before_verify[where client=countingClient and facilitatorKey="''default''" and w="0::nat"
      and evaluate=approvalPolicy and e=example_env and pl=example_payload
      and req=example_requirements and a="?a" and pr="?pr", OF h1 h2 h3] p
  show ?thesis
    by (simp add: config_newAdapter example_tx_eq example_tx_id)
qed

text \<open>
  Claim C6. Every settle attempt is claimed to re-run the policy engine before the
  settlement collaborator is invoked. The \<open>onBeforeSettle\<close> hook returns at once when no
  context is stored for the payment: with a policy that denies the payment and the
  default \<open>abortOnPolicyDeny\<close>, the hook returns no abort and changes nothing, while the
  wrapped \<open>settle\<close>, given the same adapter, payment and policy, builds the transaction,
  evaluates it and aborts without invoking the facilitator.
\<close>

theorem before_settle_hook_without_context_skips_policy:
  "approvalPolicy (mapToTransaction example_env example_payload example_requirements
                     (defaultConfig ''ps_session_1'')) =
     Inr \<lparr>action = RequireApproval, allowed = False, reason = ''approval required above 40'',
          details = None\<rparr> \<and>
   abortOnPolicyDeny (defaultConfig ''ps_session_1'') \<and>
   handleBeforeSettle approvalPolicy example_payload example_requirements
     (newAdapter (defaultConfig ''ps_session_1'') False True) =
     (None, newAdapter (defaultConfig ''ps_session_1'') False True) \<and>
   fst (wrapped_settle example_env approvalPolicy countingClient ''default''
          example_payload example_requirements
          (newAdapter (defaultConfig ''ps_session_1'') False True) 0) =
     Inr \<lparr>success = False, txHash = None, s_network = None\<rparr> \<and>
   snd (snd (wrapped_settle example_env approvalPolicy countingClient ''default''
          example_payload example_requirements
          (newAdapter (defaultConfig ''ps_session_1'') False True) 0)) = 0"
  by (simp add: handleBeforeSettle_def wrapped_settle_def approvalPolicy_def defaultConfig_def
      newAdapter_def recordProvenance_def Let_def)

text \<open>
  Where the re-check is made, it is made before the facilitator is reached: in the
  wrapped \<open>settle\<close> for every adapter state, and in the hook when it finds a context. A
  throwing engine makes the wrapped \<open>settle\<close> rethrow with nothing changed; a denial
  under \<open>abortOnPolicyDeny\<close> leaves world and breakers untouched and, with a recorder
  present, records a \<open>settlement: fail\<close> call.
\<close>

lemma settle_rechecks_policy:
  fixes client :: "'w X402FacilitatorClient"
  shows
    "(let tx = (case contexts a (transactionKey pl req) of
                  Some c \<Rightarrow> transaction c
                | None \<Rightarrow> mapToTransaction e pl req (config a));
          r = wrapped_settle e evaluate client facilitatorKey pl req a w
      in (\<forall>err. evaluate tx = Inl err \<longrightarrow> r = (Inl (PolicyEngineThrew err), a, w)) \<and>
         (\<forall>pr. evaluate tx = Inr pr \<and> \<not> allowed pr \<and> abortOnPolicyDeny (config a) \<longrightarrow>
            fst r = Inr \<lparr>success = False, txHash = None, s_network = None\<rparr> \<and>
            snd (snd r) = w \<and>
            breakers (fst (snd r)) = breakers a \<and>
            (provenance a \<noteq> None \<longrightarrow> settlementRecorded (tx_id tx) OutcomeFail (fst (snd r))))) \<and>
     (\<forall>ctx pr. contexts a (transactionKey pl req) = Some ctx \<and>
        evaluate (transaction ctx) = Inr pr \<and> \<not> allowed pr \<and> abortOnPolicyDeny (config a) \<longrightarrow>
          fst (handleBeforeSettle evaluate pl req a) =
            Some \<lparr>abort = True,
                  abortReason = ''PaySentry policy denied at settlement: '' @ reason pr\<rparr> \<and>
          (provenance a \<noteq> None \<longrightarrow>
             settlementRecorded (tx_id (transaction ctx)) OutcomeFail
               (snd (handleBeforeSettle evaluate pl req a))))"
proof -
  have w: "(let tx = (case contexts a (transactionKey pl req) of
                  Some c \<Rightarrow> transaction c
                | None \<Rightarrow> mapToTransaction e pl req (config a));
          r = wrapped_settle e evaluate client facilitatorKey pl req a w
      in (\<forall>err. evaluate tx = Inl err \<longrightarrow> r = (Inl (PolicyEngineThrew err), a, w)) \<and>
         (\<forall>pr. evaluate tx = Inr pr \<and> \<not> allowed pr \<and> abortOnPolicyDeny (config a) \<longrightarrow>
            fst r = Inr \<lparr>success = False, txHash = None, s_network = None\<rparr> \<and>
            snd (snd r) = w \<and>
            breakers (fst (snd r)) = breakers a \<and>
            (provenance a \<noteq> None \<longrightarrow> settlementRecorded (tx_id tx) OutcomeFail (fst (snd r)))))"
    by (cases "contexts a (transactionKey pl req)")
       (auto simp: wrapped_settle_def freshContext_def recordProvenance_def settlementRecorded_def Let_def)
  have h: "\<forall>ctx pr. contexts a (transactionKey pl req) = Some ctx \<and>
        evaluate (transaction ctx) = Inr pr \<and> \<not> allowed pr \<and> abortOnPolicyDeny (config a) \<longrightarrow>
          fst (handleBeforeSettle evaluate pl req a) =
            Some \<lparr>abort = True,
                  abortReason = ''PaySentry policy denied at settlement: '' @ reason pr\<rparr> \<and>
          (provenance a \<noteq> None \<longrightarrow>
             settlementRecorded (tx_id (transaction ctx)) OutcomeFail
               (snd (handleBeforeSettle evaluate pl req a)))"
    by (auto simp: handleBeforeSettle_def recordProvenance_def settlementRecorded_def Let_def)
  from w h show ?thesis by simp
qed

lemma settle_rechecks_policy_witness:
  "fst (wrapped_settle example_env approvalPolicy countingClient ''default'' example_payload
          example_requirements adapter_after_verify 1) =
     Inr \<lparr>success = False, txHash = None, s_network = None\<rparr> \<and>
   snd (snd (wrapped_settle example_env approvalPolicy countingClient ''default'' example_payload
          example_requirements adapter_after_verify 1)) = 1 \<and>
   settlementRecorded ''tx_1'' OutcomeFail
     (fst (snd (wrapped_settle example_env approvalPolicy countingClient ''default'' example_payload
          example_requirements adapter_after_verify 1))) \<and>
   wrapped_settle example_env throwingPolicy countingClient ''default'' example_payload
          example_requirements adapter_after_verify 1 =
     (Inl (PolicyEngineThrew (JsError ''malformed policy'')), adapter_after_verify, 1) \<and>
   fst (handleBeforeSettle approvalPolicy example_payload example_requirements adapter_after_verify) =
     Some \<lparr>abort = True,
           abortReason = ''PaySentry policy denied at settlement: approval required above 40''\<rparr> \<and>
   settlementRecorded ''tx_1'' OutcomeFail
     (snd (handleBeforeSettle approvalPolicy example_payload example_requirements adapter_after_verify))"
proof -
  note ctx = after_verify_context
  have cfg: "abortOnPolicyDeny (config adapter_after_verify)"
    by (simp add: after_verify_config defaultConfig_def)
  have pv: "provenance adapter_after_verify \<noteq> None"
    by (simp add: after_verify_config)
  have thr: "throwingPolicy example_tx = Inl (JsError ''malformed policy'')"
    by (simp add: throwingPolicy_def)
  from settle_rechecks_policy[where a=adapter_after_verify and pl=example_payload and req=example_requirements
      and e=example_env and evaluate=approvalPolicy and client=countingClient
      and facilitatorKey="''default''" and w="1::nat"] cfg pv
  have a: "fst (wrapped_settle example_env approvalPolicy countingClient ''default'' example_payload
          example_requirements adapter_after_verify 1) =
     Inr \<lparr>success = False, txHash = None, s_network = None\<rparr> \<and>
   snd (snd (wrapped_settle example_env approvalPolicy countingClient ''default'' example_payload
          example_requirements adapter_after_verify 1)) = 1 \<and>
   settlementRecorded ''tx_1'' OutcomeFail
     (fst (snd (wrapped_settle example_env approvalPolicy countingClient ''default'' example_payload
          example_requirements adapter_after_verify 1))) \<and>
   fst (handleBeforeSettle approvalPolicy example_payload example_requirements adapter_after_verify) =
     Some \<lparr>abort = True,
           abortReason = ''PaySentry policy denied at settlement: approval required above 40''\<rparr> \<and>
   settlementRecorded ''tx_1'' OutcomeFail
     (snd (handleBeforeSettle approvalPolicy example_payload example_requirements adapter_after_verify))"
    by (simp add: ctx Let_def approval_example example_tx_id)
  from settle_rechecks_policy[where a=adapter_after_verify and pl=example_payload and req=example_requirements
      and e=example_env and evaluate=throwingPolicy and client=countingClient
      and facilitatorKey="''default''" and w="1::nat"] thr
  have b: "wrapped_settle example_env throwingPolicy countingClient ''default'' example_payload
          example_requirements adapter_after_verify 1 =
     (Inl (PolicyEngineThrew (JsError ''malformed policy'')), adapter_after_verify, 1)"
    by (simp add: ctx Let_def)
  from a b show ?thesis by simp
qed









text \<open>
  Claim C8 as stated makes every message with a validation or authorisation keyword
  non-retryable. The network keywords are tested first: \<open>invalid_network\<close> contains
  both \<open>invalid\<close> and \<open>network\<close> and is classified retryable. And without a stored
  context \<open>handleSettleFailure\<close> records nothing.
\<close>

theorem invalid_network_is_retryable:
  "classifyRetryability (JsError ''invalid_network'') = True \<and>
   provenance (handleSettleFailure example_env example_payload example_requirements
                 (JsError ''socket hang up'')
                 (newAdapter (defaultConfig ''ps_session_1'') False True)) = Some []"
  by (simp add: classifyRetryability_def toLowerCase_def toLowerChar_def Let_def
      handleSettleFailure_def newAdapter_def)

text \<open>
  Claim C8, amended. A value that is not an \<open>Error\<close> is not retryable; an \<open>Error\<close> is
  retryable exactly when its lower-cased message contains one of the network keywords
  (so a message with \<open>401\<close>, \<open>403\<close>, \<open>invalid\<close>, \<open>insufficient\<close> or \<open>denied\<close>, or an
  unrecognised one, is not retryable unless it also contains a network keyword).
  \<open>handleSettleFailure\<close> records the flag in a \<open>settlement: fail\<close> entry when a
  context is stored for the payment and a recorder is configured; it leaves the
  breakers alone and has no facilitator to call again.
\<close>

theorem retryable_iff_network_keyword:
  "classifyRetryability (NonError v) = False \<and>
   classifyRetryability (JsError m) =
     list_ex (includes_str (toLowerCase m))
       [''timeout'', ''econnreset'', ''econnrefused'', ''network'', ''socket'', ''dns'',
        ''503'', ''502'', ''429''] \<and>
   (contexts a (transactionKey pl req) = Some ctx \<longrightarrow>
      provenance (handleSettleFailure e pl req err a) =
        map_option
          (\<lambda>cs. cs @ [RecordSettlement (tx_id (transaction ctx)) OutcomeFail
                          [(''error'', MStr (case err of JsError m \<Rightarrow> m | NonError v \<Rightarrow> v)),
                           (''retryable'', MBool (classifyRetryability err))]])
          (provenance a) \<and>
      breakers (handleSettleFailure e pl req err a) = breakers a) \<and>
   (contexts a (transactionKey pl req) = None \<longrightarrow> handleSettleFailure e pl req err a = a)"
proof -
  have a: "classifyRetryability (NonError v) = False"
    by (simp add: classifyRetryability_def)
  have b: "classifyRetryability (JsError m) =
     list_ex (includes_str (toLowerCase m))
       [''timeout'', ''econnreset'', ''econnrefused'', ''network'', ''socket'', ''dns'',
        ''503'', ''502'', ''429'']"
    by (simp add: classifyRetryability_def Let_def)
  have c: "contexts a (transactionKey pl req) = Some ctx \<Longrightarrow>
      provenance (handleSettleFailure e pl req err a) =
        map_option
          (\<lambda>cs. cs @ [RecordSettlement (tx_id (transaction ctx)) OutcomeFail
                          [(''error'', MStr (case err of JsError m \<Rightarrow> m | NonError v \<Rightarrow> v)),
                           (''retryable'', MBool (classifyRetryability err))]])
          (provenance a) \<and>
      breakers (handleSettleFailure e pl req err a) = breakers a"
    by (simp add: handleSettleFailure_def recordProvenance_def Let_def)
  have d: "contexts a (transactionKey pl req) = None \<Longrightarrow> handleSettleFailure e pl req err a = a"
    by (simp add: handleSettleFailure_def Let_def)
  show ?thesis using a b c d by blast
qed

theorem retryable_iff_network_keyword_witness:
  "classifyRetryability (JsError ''socket hang up'') = True \<and>
   provenance (handleSettleFailure example_env example_payload example_requirements
                 (JsError ''socket hang up'') adapter_with_context) =
     Some [RecordSettlement ''tx_1'' OutcomeFail
             [(''error'', MStr ''socket hang up''), (''retryable'', MBool True)]] \<and>
   handleSettleFailure example_env example_payload example_requirements
      (JsError ''socket hang up'') (newAdapter (defaultConfig ''ps_session_1'') False True) =
     newAdapter (defaultConfig ''ps_session_1'') False True"
proof -
  have r: "classifyRetryability (JsError ''socket hang up'') = True"
    by (simp add: classifyRetryability_def toLowerCase_def toLowerChar_def Let_def)
  have h1: "contexts adapter_with_context (transactionKey example_payload example_requirements) =
     Some (freshContext example_tx)"
    by (simp add: adapter_with_context_def)
  have h2: "contexts (newAdapter (defaultConfig ''ps_session_1'') False True)
     (transactionKey example_payload example_requirements) = None"
    by (simp add: newAdapter_def)
  have p: "provenance adapter_with_context = Some []"
    by (simp add: adapter_with_context_def newAdapter_def)
  from retryable_iff_network_keyword[where a=adapter_with_context and pl=example_payload and req=example_requirements
      and ctx="freshContext example_tx" and e=example_env and err="JsError ''socket hang up''"] h1 r p
  have x: "provenance (handleSettleFailure example_env example_payload example_requirements
                 (JsError ''socket hang up'') adapter_with_context) =
     Some [RecordSettlement ''tx_1'' OutcomeFail
             [(''error'', MStr ''socket hang up''), (''retryable'', MBool True)]]"
    by (simp add: freshContext_def example_tx_id)
  from retryable_iff_network_keyword[where a="newAdapter (defaultConfig ''ps_session_1'') False True" and pl=example_payload
      and req=example_requirements and e=example_env and err="JsError ''socket hang up''"] h2
  have y: "handleSettleFailure example_env example_payload example_requirements
      (JsError ''socket hang up'') (newAdapter (defaultConfig ''ps_session_1'') False True) =
     newAdapter (defaultConfig ''ps_session_1'') False True"
    by simp
  from r x y show ?thesis by simp
qed

end
